theory Spec2Isabelle
  imports Complex_Main "HOL-Library.Sublist" "HOL-Library.List_Lexorder" "HOL-Library.Char_ord"
begin

section \<open>JavaScript numbers\<close>

text \<open>
  The dashboard components compute with JavaScript \<^verbatim>\<open>number\<close> values. A number is
  modelled as a finite value or one of the three special values. Finite values are exact
  rationals: the rounding and the overflow of binary64 and the sign of zero are not
  modelled. The operations below follow the language definition on the special values
  (\<^verbatim>\<open>NaN\<close> is absorbing, \<^verbatim>\<open>Infinity - Infinity\<close> and \<^verbatim>\<open>Infinity / Infinity\<close>
  are \<^verbatim>\<open>NaN\<close>, every comparison with \<^verbatim>\<open>NaN\<close> is false).
\<close>

datatype number = Fin rat | NaN | PInf | NInf

text \<open>\<^verbatim>\<open>a + b\<close> on numbers.\<close>

fun js_add :: "number \<Rightarrow> number \<Rightarrow> number" where
  "js_add NaN _ = NaN"
| "js_add _ NaN = NaN"
| "js_add PInf NInf = NaN"
| "js_add NInf PInf = NaN"
| "js_add PInf _ = PInf"
| "js_add _ PInf = PInf"
| "js_add NInf _ = NInf"
| "js_add _ NInf = NInf"
| "js_add (Fin a) (Fin b) = Fin (a + b)"

lemma js_add_assoc: "js_add (js_add x y) z = js_add x (js_add y z)"
  by (cases x; cases y; cases z; simp)

lemma js_add_commute: "js_add x y = js_add y x"
  by (cases x; cases y; simp)

lemma js_add_zero_left: "js_add (Fin 0) x = x"
  by (cases x; simp)

text \<open>
  Addition of numbers is an associative and commutative operation with unit \<open>0\<close>, so the
  sum of a list of numbers is written with the library's \<open>sum_list\<close>.
\<close>

instantiation number :: comm_monoid_add
begin

definition zero_number :: number where
  "zero_number = Fin 0"

definition plus_number :: "number \<Rightarrow> number \<Rightarrow> number" where
  "plus_number = js_add"

instance
  by standard
    (simp_all add: plus_number_def zero_number_def js_add_assoc js_add_zero_left,
     rule js_add_commute)

end

lemma Fin_plus_Fin [simp]: "Fin a + Fin b = Fin (a + b)"
  by (simp add: plus_number_def)

lemma zero_number_Fin [simp]: "(0::number) = Fin 0"
  by (simp add: zero_number_def)

lemma plus_Fin_0 [simp]: "x + Fin 0 = x" "Fin 0 + x = x"
  using add_0_right [of x] add_0_left [of x] by (simp_all add: zero_number_def)

fun js_neg :: "number \<Rightarrow> number" where
  "js_neg (Fin a) = Fin (- a)"
| "js_neg NaN = NaN"
| "js_neg PInf = NInf"
| "js_neg NInf = PInf"

definition js_sub :: "number \<Rightarrow> number \<Rightarrow> number" where
  "js_sub a b = a + js_neg b"

text \<open>The sign of a number that is not \<^verbatim>\<open>NaN\<close>: \<open>-1\<close>, \<open>0\<close> or \<open>1\<close>.\<close>

fun js_sign :: "number \<Rightarrow> int" where
  "js_sign (Fin a) = (if a < 0 then - 1 else if a = 0 then 0 else 1)"
| "js_sign NaN = 0"
| "js_sign PInf = 1"
| "js_sign NInf = - 1"

definition signed_inf :: "int \<Rightarrow> number" where
  "signed_inf s = (if s < 0 then NInf else PInf)"

fun js_mul :: "number \<Rightarrow> number \<Rightarrow> number" where
  "js_mul NaN _ = NaN"
| "js_mul _ NaN = NaN"
| "js_mul (Fin a) (Fin b) = Fin (a * b)"
| "js_mul a b =
     (if js_sign a = 0 \<or> js_sign b = 0 then NaN else signed_inf (js_sign a * js_sign b))"

fun js_div :: "number \<Rightarrow> number \<Rightarrow> number" where
  "js_div NaN _ = NaN"
| "js_div _ NaN = NaN"
| "js_div (Fin a) (Fin b) =
     (if b = 0 then (if a = 0 then NaN else signed_inf (js_sign (Fin a))) else Fin (a / b))"
| "js_div (Fin a) _ = Fin 0"
| "js_div a (Fin b) = signed_inf (if b < 0 then - js_sign a else js_sign a)"
| "js_div _ _ = NaN"

text \<open>\<^verbatim>\<open>a > b\<close> and \<^verbatim>\<open>a >= b\<close>.\<close>

fun js_gt :: "number \<Rightarrow> number \<Rightarrow> bool" where
  "js_gt NaN _ = False"
| "js_gt _ NaN = False"
| "js_gt (Fin a) (Fin b) = (a > b)"
| "js_gt PInf b = (b \<noteq> PInf)"
| "js_gt NInf _ = False"
| "js_gt (Fin a) b = (b = NInf)"

fun js_ge :: "number \<Rightarrow> number \<Rightarrow> bool" where
  "js_ge NaN _ = False"
| "js_ge _ NaN = False"
| "js_ge a b = (a = b \<or> js_gt a b)"

text \<open>\<^verbatim>\<open>a < b\<close> and \<^verbatim>\<open>a === b\<close> on numbers.\<close>

definition js_lt :: "number \<Rightarrow> number \<Rightarrow> bool" where
  "js_lt a b = js_gt b a"

fun js_eq :: "number \<Rightarrow> number \<Rightarrow> bool" where
  "js_eq NaN _ = False"
| "js_eq _ NaN = False"
| "js_eq a b = (a = b)"

text \<open>Truthiness of a number, and \<^verbatim>\<open>x || 0\<close> on a field that may be missing
  (\<open>None\<close> is \<^verbatim>\<open>undefined\<close> or \<^verbatim>\<open>null\<close>).\<close>

fun truthy :: "number \<Rightarrow> bool" where
  "truthy (Fin a) = (a \<noteq> 0)"
| "truthy NaN = False"
| "truthy PInf = True"
| "truthy NInf = True"

fun truthyOpt :: "number option \<Rightarrow> bool" where
  "truthyOpt None = False"
| "truthyOpt (Some x) = truthy x"

fun js_abs :: "number \<Rightarrow> number" where
  "js_abs (Fin a) = Fin \<bar>a\<bar>"
| "js_abs NaN = NaN"
| "js_abs PInf = PInf"
| "js_abs NInf = PInf"

fun orZero :: "number option \<Rightarrow> number" where
  "orZero None = Fin 0"
| "orZero (Some x) = (if truthy x then x else Fin 0)"

text \<open>\<^verbatim>\<open>s || d\<close> on a string field that may be missing: the empty string is falsy.\<close>

fun orElse :: "string option \<Rightarrow> string \<Rightarrow> string" where
  "orElse None d = d"
| "orElse (Some s) d = (if s = [] then d else s)"

fun is_finite :: "number \<Rightarrow> bool" where
  "is_finite (Fin _) = True"
| "is_finite _ = False"

section \<open>Input records\<close>

text \<open>
  The declarations of \<^verbatim>\<open>PayrollData\<close> and \<^verbatim>\<open>SessionData\<close> are imported by the
  components from modules outside the source tree. The records below hold the fields the
  components read. A field that the code guards with \<^verbatim>\<open>||\<close> is optional
  (\<open>None\<close> is \<^verbatim>\<open>undefined\<close>); \<^verbatim>\<open>conversion\<close> and \<^verbatim>\<open>retention\<close> are taken
  as numbers, on which \<^verbatim>\<open>Number(...)\<close> is the identity and gives \<^verbatim>\<open>NaN\<close> on
  \<^verbatim>\<open>undefined\<close>.
\<close>

record PayrollData =
  teacherId :: string
  teacherName :: string
  teacherEmail :: string
  location :: string
  monthYear :: "string option"
  totalSessions :: "number option"
  totalEmptySessions :: "number option"
  totalNonEmptySessions :: "number option"
  totalCustomers :: "number option"
  totalPaid :: "number option"
  cycleSessions :: "number option"
  emptyCycleSessions :: "number option"
  nonEmptyCycleSessions :: "number option"
  cycleCustomers :: "number option"
  cyclePaid :: "number option"
  barreSessions :: "number option"
  emptyBarreSessions :: "number option"
  nonEmptyBarreSessions :: "number option"
  barreCustomers :: "number option"
  barrePaid :: "number option"
  converted :: "number option"
  retained :: "number option"
  conversion :: "number option"
  retention :: "number option"
  unique :: "string option"

record SessionData =
  cleanedClass :: "string option"
  classType :: "string option"
  trainerName :: "string option"
  location :: "string option"
  dayOfWeek :: "string option"
  time :: "string option"
  date :: string
  capacity :: "number option"
  checkedInCount :: "number option"
  bookedCount :: "number option"
  lateCancelledCount :: "number option"
  totalPaid :: "number option"

section \<open>Strings and dictionaries\<close>

text \<open>
  Strings are lists of bytes. \<^verbatim>\<open>toLowerCase\<close> is modelled on the ASCII letters, and
  \<^verbatim>\<open>s.includes(t)\<close> is the test that \<open>t\<close> is a contiguous part of \<open>s\<close>.
\<close>

definition toLowerCase_char :: "char \<Rightarrow> char" where
  "toLowerCase_char c =
    (case map_of (zip ''ABCDEFGHIJKLMNOPQRSTUVWXYZ'' ''abcdefghijklmnopqrstuvwxyz'') c of
       Some l \<Rightarrow> l
     | None \<Rightarrow> c)"

definition toLowerCase :: "string \<Rightarrow> string" where
  "toLowerCase s = map toLowerCase_char s"

definition js_includes :: "string \<Rightarrow> string \<Rightarrow> bool" where
  "js_includes s t = sublist t s"

text \<open>
  A field inside a template literal: \<^verbatim>\<open>undefined\<close> prints its name. The default
  \<^verbatim>\<open>sort()\<close> of an array of strings is the library's \<open>sort\<close> on the lexicographic
  order of the character codes.
\<close>

fun templ :: "string option \<Rightarrow> string" where
  "templ None = ''undefined''"
| "templ (Some s) = s"

text \<open>
  An object used as a dictionary (\<^verbatim>\<open>acc[key]\<close>) is an association list in the order in
  which the keys were first written. \<open>upsert k init f\<close> is the idiom
  \<^verbatim>\<open>if (!acc[k]) acc[k] = init; update(acc[k])\<close>: the entry of \<open>k\<close> is created when it is
  missing and then updated in place. Keys that name a member of \<^verbatim>\<open>Object.prototype\<close> and
  the enumeration order of integer-like keys are outside this model.
\<close>

fun upsert :: "'k \<Rightarrow> 'v \<Rightarrow> ('v \<Rightarrow> 'v) \<Rightarrow> ('k \<times> 'v) list \<Rightarrow> ('k \<times> 'v) list" where
  "upsert k init f [] = [(k, f init)]"
| "upsert k init f ((k', v) # kvs) =
     (if k = k' then (k', f v) # kvs else (k', v) # upsert k init f kvs)"

text \<open>\<^verbatim>\<open>Object.values\<close>.\<close>

definition object_values :: "('k \<times> 'v) list \<Rightarrow> 'v list" where
  "object_values kvs = map snd kvs"

section \<open>TrainerDataProcessor\<close>

record ProcessedTrainerData =
  trainerId :: string
  trainerName :: string
  trainerEmail :: string
  location :: string
  monthYear :: string
  totalSessions :: number
  emptySessions :: number
  nonEmptySessions :: number
  totalCustomers :: number
  totalPaid :: number
  cycleSessions :: number
  emptyCycleSessions :: number
  nonEmptyCycleSessions :: number
  cycleCustomers :: number
  cycleRevenue :: number
  strengthSessions :: number
  emptyStrengthSessions :: number
  nonEmptyStrengthSessions :: number
  strengthCustomers :: number
  strengthRevenue :: number
  barreSessions :: number
  emptyBarreSessions :: number
  nonEmptyBarreSessions :: number
  barreCustomers :: number
  barreRevenue :: number
  classAverageExclEmpty :: number
  classAverageInclEmpty :: number
  conversion :: number
  retention :: number
  uniqueKey :: string
  newMembers :: number
  convertedMembers :: number
  retainedMembers :: number
  conversionRate :: number
  retentionRate :: number

text \<open>\<^verbatim>\<open>Number(x) || 0\<close> on an optional number.\<close>

fun numberOrZero :: "number option \<Rightarrow> number" where
  "numberOrZero None = Fin 0"
| "numberOrZero (Some x) = (if truthy x then x else Fin 0)"

definition processRecord :: "PayrollData \<Rightarrow> ProcessedTrainerData" where
  "processRecord record =
    (let totalSessions = orZero (PayrollData.totalSessions record);
         emptySessions = orZero (totalEmptySessions record);
         nonEmptySessions = orZero (totalNonEmptySessions record);
         totalCustomers = orZero (PayrollData.totalCustomers record);
         totalPaid = orZero (PayrollData.totalPaid record);
         classAverageExclEmpty =
           (if js_gt nonEmptySessions (Fin 0) then js_div totalCustomers nonEmptySessions else Fin 0);
         classAverageInclEmpty =
           (if js_gt totalSessions (Fin 0) then js_div totalCustomers totalSessions else Fin 0);
         conversionRate = numberOrZero (PayrollData.conversion record);
         retentionRate = numberOrZero (PayrollData.retention record)
     in \<lparr> trainerId = teacherId record,
          trainerName = teacherName record,
          trainerEmail = teacherEmail record,
          location = PayrollData.location record,
          monthYear = orElse (PayrollData.monthYear record) [],
          totalSessions = totalSessions,
          emptySessions = emptySessions,
          nonEmptySessions = nonEmptySessions,
          totalCustomers = totalCustomers,
          totalPaid = totalPaid,
          cycleSessions = orZero (PayrollData.cycleSessions record),
          emptyCycleSessions = orZero (PayrollData.emptyCycleSessions record),
          nonEmptyCycleSessions = orZero (PayrollData.nonEmptyCycleSessions record),
          cycleCustomers = orZero (PayrollData.cycleCustomers record),
          cycleRevenue = orZero (cyclePaid record),
          strengthSessions = Fin 0,
          emptyStrengthSessions = Fin 0,
          nonEmptyStrengthSessions = Fin 0,
          strengthCustomers = Fin 0,
          strengthRevenue = Fin 0,
          barreSessions = orZero (PayrollData.barreSessions record),
          emptyBarreSessions = orZero (PayrollData.emptyBarreSessions record),
          nonEmptyBarreSessions = orZero (PayrollData.nonEmptyBarreSessions record),
          barreCustomers = orZero (PayrollData.barreCustomers record),
          barreRevenue = orZero (barrePaid record),
          classAverageExclEmpty = classAverageExclEmpty,
          classAverageInclEmpty = classAverageInclEmpty,
          conversion = orZero (converted record),
          retention = orZero (retained record),
          uniqueKey = orElse (unique record) [],
          newMembers = Fin 0,
          convertedMembers = orZero (converted record),
          retainedMembers = orZero (retained record),
          conversionRate = conversionRate,
          retentionRate = retentionRate \<rparr>)"

definition processTrainerData :: "PayrollData list \<Rightarrow> ProcessedTrainerData list" where
  "processTrainerData payrollData = map processRecord payrollData"

definition getMetricValue :: "ProcessedTrainerData \<Rightarrow> string \<Rightarrow> number" where
  "getMetricValue data metric =
    (if metric = ''totalSessions'' then totalSessions data
     else if metric = ''totalCustomers'' then totalCustomers data
     else if metric = ''totalPaid'' then totalPaid data
     else if metric = ''classAverageExclEmpty'' then classAverageExclEmpty data
     else if metric = ''classAverageInclEmpty'' then classAverageInclEmpty data
     else if metric = ''emptySessions'' then emptySessions data
     else if metric = ''nonEmptySessions'' then nonEmptySessions data
     else if metric = ''cycleSessions'' then cycleSessions data
     else if metric = ''cycleRevenue'' then cycleRevenue data
     else if metric = ''barreSessions'' then barreSessions data
     else if metric = ''barreRevenue'' then barreRevenue data
     else if metric = ''strengthSessions'' then strengthSessions data
     else if metric = ''strengthRevenue'' then strengthRevenue data
     else if metric = ''conversion'' then conversion data
     else if metric = ''retention'' then retention data
     else if metric = ''conversionRate'' then conversionRate data
     else if metric = ''retentionRate'' then retentionRate data
     else if metric = ''newMembers'' then newMembers data
     else if metric = ''convertedMembers'' then convertedMembers data
     else if metric = ''retainedMembers'' then retainedMembers data
     else Fin 0)"

section \<open>EnhancedClassFormatPerformanceTable\<close>

record ClassFormatData =
  classFormat :: string
  totalSessions :: number
  emptySessions :: number
  nonEmptySessions :: number
  totalCheckedIn :: number
  totalLateCancelled :: number
  totalBooked :: number
  totalCapacity :: number
  totalRevenue :: number
  revenueGeneratingSessions :: number
  avgClassSize :: number
  avgRevenue :: number
  fillRate :: number
  showUpRate :: number
  utilizationRate :: number
  cancellationRate :: number
  revenueEfficiency :: number
  revenuePerAttendee :: number
  emptySessionRate :: number
  sessions :: "SessionData list"

text \<open>\<^verbatim>\<open>session.cleanedClass || session.classType || 'Unknown'\<close>.\<close>

definition classFormatOf :: "SessionData \<Rightarrow> string" where
  "classFormatOf session =
     orElse (cleanedClass session) (orElse (classType session) ''Unknown'')"

definition isHosted :: "string \<Rightarrow> bool" where
  "isHosted cf = js_includes (toLowerCase cf) ''hosted''"

definition newClassFormatData :: "string \<Rightarrow> ClassFormatData" where
  "newClassFormatData cf =
    \<lparr> classFormat = cf, totalSessions = Fin 0, emptySessions = Fin 0, nonEmptySessions = Fin 0,
      totalCheckedIn = Fin 0, totalLateCancelled = Fin 0, totalBooked = Fin 0,
      totalCapacity = Fin 0, totalRevenue = Fin 0, revenueGeneratingSessions = Fin 0,
      avgClassSize = Fin 0, avgRevenue = Fin 0, fillRate = Fin 0, showUpRate = Fin 0,
      utilizationRate = Fin 0, cancellationRate = Fin 0, revenueEfficiency = Fin 0,
      revenuePerAttendee = Fin 0, emptySessionRate = Fin 0, sessions = [] \<rparr>"

text \<open>The body of the \<^verbatim>\<open>reduce\<close> callback after the entry was found or created.\<close>

definition addSession :: "SessionData \<Rightarrow> ClassFormatData \<Rightarrow> ClassFormatData" where
  "addSession session classData =
    classData
    \<lparr> totalSessions := ClassFormatData.totalSessions classData + Fin 1,
      totalCapacity := totalCapacity classData + orZero (capacity session),
      totalCheckedIn := totalCheckedIn classData + orZero (checkedInCount session),
      totalRevenue := totalRevenue classData + orZero (SessionData.totalPaid session),
      totalBooked := totalBooked classData + orZero (bookedCount session),
      totalLateCancelled := totalLateCancelled classData + orZero (lateCancelledCount session),
      sessions := sessions classData @ [session],
      emptySessions :=
        (if js_eq (orZero (checkedInCount session)) (Fin 0)
         then ClassFormatData.emptySessions classData + Fin 1
         else ClassFormatData.emptySessions classData),
      nonEmptySessions :=
        (if js_eq (orZero (checkedInCount session)) (Fin 0)
         then ClassFormatData.nonEmptySessions classData
         else ClassFormatData.nonEmptySessions classData + Fin 1),
      revenueGeneratingSessions :=
        (if js_gt (orZero (SessionData.totalPaid session)) (Fin 0)
         then revenueGeneratingSessions classData + Fin 1
         else revenueGeneratingSessions classData) \<rparr>"

definition groupStep ::
  "(string \<times> ClassFormatData) list \<Rightarrow> SessionData \<Rightarrow> (string \<times> ClassFormatData) list" where
  "groupStep acc session =
    (let cf = classFormatOf session
     in if isHosted cf then acc
        else upsert cf (newClassFormatData cf) (addSession session) acc)"

definition grouped :: "SessionData list \<Rightarrow> (string \<times> ClassFormatData) list" where
  "grouped data = foldl groupStep [] data"

text \<open>The derived metrics of the \<^verbatim>\<open>map\<close> callback.\<close>

definition enrich :: "ClassFormatData \<Rightarrow> ClassFormatData" where
  "enrich classData =
    (let n = ClassFormatData.totalSessions classData
     in classData
        \<lparr> avgClassSize := (if js_gt n (Fin 0) then js_div (totalCheckedIn classData) n else Fin 0),
          avgRevenue := (if js_gt n (Fin 0) then js_div (totalRevenue classData) n else Fin 0),
          fillRate :=
            (if js_gt (totalCapacity classData) (Fin 0)
             then js_mul (js_div (totalCheckedIn classData) (totalCapacity classData)) (Fin 100)
             else Fin 0),
          showUpRate :=
            (if js_gt (totalBooked classData) (Fin 0)
             then js_mul (js_div (totalCheckedIn classData) (totalBooked classData)) (Fin 100)
             else Fin 0),
          utilizationRate :=
            (if js_gt n (Fin 0)
             then js_mul (js_div (js_sub n (ClassFormatData.emptySessions classData)) n) (Fin 100)
             else Fin 0),
          cancellationRate :=
            (if js_gt (totalBooked classData) (Fin 0)
             then js_mul (js_div (totalLateCancelled classData) (totalBooked classData)) (Fin 100)
             else Fin 0),
          revenueEfficiency :=
            (if js_gt n (Fin 0)
             then js_mul (js_div (revenueGeneratingSessions classData) n) (Fin 100)
             else Fin 0),
          revenuePerAttendee :=
            (if js_gt (totalCheckedIn classData) (Fin 0)
             then js_div (totalRevenue classData) (totalCheckedIn classData)
             else Fin 0),
          emptySessionRate :=
            (if js_gt n (Fin 0)
             then js_mul (js_div (ClassFormatData.emptySessions classData) n) (Fin 100)
             else Fin 0) \<rparr>)"

definition enrichedData :: "number \<Rightarrow> SessionData list \<Rightarrow> ClassFormatData list" where
  "enrichedData minSessions data =
     map enrich
       (filter (\<lambda>classData. js_ge (ClassFormatData.totalSessions classData) minSessions)
          (object_values (grouped data)))"

text \<open>The \<^verbatim>\<open>switch (viewFilter)\<close>.\<close>

definition applyViewFilter :: "string \<Rightarrow> ClassFormatData list \<Rightarrow> ClassFormatData list" where
  "applyViewFilter viewFilter enriched =
    (if viewFilter = ''high-performing''
     then filter (\<lambda>d. js_ge (fillRate d) (Fin 70) \<and> js_ge (utilizationRate d) (Fin 80)) enriched
     else if viewFilter = ''needs-attention''
     then filter (\<lambda>d. js_lt (fillRate d) (Fin 50) \<or> js_gt (emptySessionRate d) (Fin 30)) enriched
     else if viewFilter = ''revenue-generators''
     then filter (\<lambda>d. js_ge (revenueEfficiency d) (Fin 80)) enriched
     else enriched)"

text \<open>
  The rows of \<^verbatim>\<open>processedData\<close>. The component finally sorts them by the selected
  column; that call reorders the rows and changes none, and the rows are given here in
  the order before it.
\<close>

definition processedData :: "number \<Rightarrow> string \<Rightarrow> SessionData list \<Rightarrow> ClassFormatData list" where
  "processedData minSessions viewFilter data =
    (if data = [] then [] else applyViewFilter viewFilter (enrichedData minSessions data))"

section \<open>ClassPerformanceRankingTable\<close>

record RankingClassData =
  classType :: string
  totalSessions :: number
  totalCapacity :: number
  totalCheckedIn :: number
  totalRevenue :: number
  totalBooked :: number
  emptySessionsCount :: number
  revenueGeneratingSessions :: number
  sessions :: "SessionData list"

text \<open>The enriched row is the group with the derived metrics spread over it.\<close>

record RankingRow = RankingClassData +
  fillRate :: number
  showUpRate :: number
  avgRevenue :: number
  revenuePerAttendee :: number
  utilizationRate :: number
  avgClassSize :: number
  emptySessionRate :: number
  revenueEfficiency :: number

definition newRankingClassData :: "string \<Rightarrow> RankingClassData" where
  "newRankingClassData ct =
    \<lparr> classType = ct, totalSessions = Fin 0, totalCapacity = Fin 0, totalCheckedIn = Fin 0,
      totalRevenue = Fin 0, totalBooked = Fin 0, emptySessionsCount = Fin 0,
      revenueGeneratingSessions = Fin 0, sessions = [] \<rparr>"

definition rankingAddSession :: "SessionData \<Rightarrow> RankingClassData \<Rightarrow> RankingClassData" where
  "rankingAddSession session classData =
    classData
    \<lparr> RankingClassData.totalSessions := RankingClassData.totalSessions classData + Fin 1,
      RankingClassData.totalCapacity :=
        RankingClassData.totalCapacity classData + orZero (capacity session),
      RankingClassData.totalCheckedIn :=
        RankingClassData.totalCheckedIn classData + orZero (checkedInCount session),
      RankingClassData.totalRevenue :=
        RankingClassData.totalRevenue classData + orZero (SessionData.totalPaid session),
      RankingClassData.totalBooked :=
        RankingClassData.totalBooked classData + orZero (bookedCount session),
      RankingClassData.sessions := RankingClassData.sessions classData @ [session],
      emptySessionsCount :=
        (if js_eq (orZero (checkedInCount session)) (Fin 0)
         then emptySessionsCount classData + Fin 1
         else emptySessionsCount classData),
      RankingClassData.revenueGeneratingSessions :=
        (if js_gt (orZero (SessionData.totalPaid session)) (Fin 0)
         then RankingClassData.revenueGeneratingSessions classData + Fin 1
         else RankingClassData.revenueGeneratingSessions classData) \<rparr>"

text \<open>
  The key is the expression \<^verbatim>\<open>session.cleanedClass || session.classType || 'Unknown'\<close>
  again, and the hosted test is the same as in the class-format table.
\<close>

definition rankingStep ::
  "(string \<times> RankingClassData) list \<Rightarrow> SessionData \<Rightarrow> (string \<times> RankingClassData) list" where
  "rankingStep acc session =
    (let ct = classFormatOf session
     in if js_includes (toLowerCase ct) ''hosted'' then acc
        else upsert ct (newRankingClassData ct) (rankingAddSession session) acc)"

definition rankingGrouped :: "SessionData list \<Rightarrow> (string \<times> RankingClassData) list" where
  "rankingGrouped data = foldl rankingStep [] data"

definition rankingEnrich :: "RankingClassData \<Rightarrow> RankingRow" where
  "rankingEnrich classData =
    (let n = RankingClassData.totalSessions classData;
         checkedIn = RankingClassData.totalCheckedIn classData;
         revenue = RankingClassData.totalRevenue classData;
         booked = RankingClassData.totalBooked classData;
         cap = RankingClassData.totalCapacity classData
     in \<lparr> classType = classType classData,
          totalSessions = n,
          totalCapacity = cap,
          totalCheckedIn = checkedIn,
          totalRevenue = revenue,
          totalBooked = booked,
          emptySessionsCount = emptySessionsCount classData,
          revenueGeneratingSessions = RankingClassData.revenueGeneratingSessions classData,
          sessions = RankingClassData.sessions classData,
          fillRate = (if js_gt cap (Fin 0) then js_mul (js_div checkedIn cap) (Fin 100) else Fin 0),
          showUpRate =
            (if js_gt booked (Fin 0) then js_mul (js_div checkedIn booked) (Fin 100) else Fin 0),
          avgRevenue = (if js_gt n (Fin 0) then js_div revenue n else Fin 0),
          revenuePerAttendee = (if js_gt checkedIn (Fin 0) then js_div revenue checkedIn else Fin 0),
          utilizationRate =
            (if js_gt n (Fin 0)
             then js_mul (js_div (js_sub n (emptySessionsCount classData)) n) (Fin 100)
             else Fin 0),
          avgClassSize = (if js_gt n (Fin 0) then js_div checkedIn n else Fin 0),
          emptySessionRate =
            (if js_gt n (Fin 0)
             then js_mul (js_div (emptySessionsCount classData) n) (Fin 100)
             else Fin 0),
          revenueEfficiency =
            (if js_gt n (Fin 0)
             then js_mul (js_div (RankingClassData.revenueGeneratingSessions classData) n) (Fin 100)
             else Fin 0) \<rparr>)"

text \<open>The rows of the ranking table's \<^verbatim>\<open>processedData\<close>, in the order before the final sort.\<close>

definition rankingProcessedData :: "number \<Rightarrow> SessionData list \<Rightarrow> RankingRow list" where
  "rankingProcessedData minSessions data =
    (if data = [] then []
     else map rankingEnrich
            (filter (\<lambda>classData. js_ge (RankingClassData.totalSessions classData) minSessions)
               (object_values (rankingGrouped data))))"

section \<open>The dimension of a trend row\<close>

text \<open>
  The \<^verbatim>\<open>switch (activeTrendView)\<close> of the two trend tables: the key of the row a session
  is counted in, and the row's type.
\<close>

definition dimensionOf :: "string \<Rightarrow> SessionData \<Rightarrow> string \<times> string" where
  "dimensionOf activeTrendView session =
    (if activeTrendView = ''timeslot''
     then (templ (time session) @ '' ('' @ templ (dayOfWeek session) @ '')'', ''timeslot'')
     else if activeTrendView = ''format''
     then (orElse (cleanedClass session) (orElse (SessionData.classType session) ''Unknown''),
           ''format'')
     else if activeTrendView = ''trainer''
     then (orElse (SessionData.trainerName session) ''Unknown'', ''trainer'')
     else if activeTrendView = ''location''
     then (orElse (SessionData.location session) ''Unknown'', ''location'')
     else if activeTrendView = ''dayOfWeek''
     then (orElse (dayOfWeek session) ''Unknown'', ''dayOfWeek'')
     else (''Unknown'', ''timeslot''))"

section \<open>MonthOnMonthTrendsTable\<close>

text \<open>
  The month key of a session is computed by the \<^verbatim>\<open>Date\<close> built-in from
  \<^verbatim>\<open>session.date\<close> in the local time zone. The function from the date string to the key
  \<^verbatim>\<open>YYYY-MM\<close> is the parameter \<open>monthKeyOf\<close> of the model.
\<close>

record TrendValues =
  avgVisits :: number
  sessions :: number
  attendance :: number
  revenue :: number
  fillRate :: number

text \<open>
  A trend object holds \<^verbatim>\<open>dimension\<close>, \<^verbatim>\<open>type\<close>, \<^verbatim>\<open>totalValues\<close> and one
  property per month key; the month properties are the list \<open>monthValues\<close>.
\<close>

record MonthlyTrendData =
  dimension :: string
  type :: string
  totalValues :: TrendValues
  monthValues :: "(string \<times> TrendValues) list"

definition zeroValues :: TrendValues where
  "zeroValues = \<lparr> avgVisits = Fin 0, sessions = Fin 0, attendance = Fin 0, revenue = Fin 0,
     fillRate = Fin 0 \<rparr>"

definition sortedMonths :: "(string \<Rightarrow> string) \<Rightarrow> SessionData list \<Rightarrow> string list" where
  "sortedMonths monthKeyOf data = sort (remdups (map (\<lambda>session. monthKeyOf (date session)) data))"

definition countSession :: "SessionData \<Rightarrow> TrendValues \<Rightarrow> TrendValues" where
  "countSession session v =
     v \<lparr> TrendValues.sessions := TrendValues.sessions v + Fin 1,
         attendance := attendance v + orZero (checkedInCount session),
         revenue := revenue v + orZero (SessionData.totalPaid session) \<rparr>"

definition newMonthlyTrend :: "string list \<Rightarrow> string \<times> string \<Rightarrow> MonthlyTrendData" where
  "newMonthlyTrend months dk =
     \<lparr> dimension = fst dk, type = snd dk, totalValues = zeroValues,
       monthValues = map (\<lambda>month. (month, zeroValues)) months \<rparr>"

definition trendAddSession ::
  "(string \<Rightarrow> string) \<Rightarrow> SessionData \<Rightarrow> MonthlyTrendData \<Rightarrow> MonthlyTrendData" where
  "trendAddSession monthKeyOf session trend =
     trend \<lparr> monthValues :=
                upsert (monthKeyOf (date session)) zeroValues (countSession session)
                  (monthValues trend),
             totalValues := countSession session (totalValues trend) \<rparr>"

definition trendStep ::
  "(string \<Rightarrow> string) \<Rightarrow> string list \<Rightarrow> string \<Rightarrow>
   (string \<times> MonthlyTrendData) list \<Rightarrow> SessionData \<Rightarrow> (string \<times> MonthlyTrendData) list" where
  "trendStep monthKeyOf months activeTrendView acc session =
     (let dk = dimensionOf activeTrendView session
      in upsert (fst dk) (newMonthlyTrend months dk) (trendAddSession monthKeyOf session) acc)"

definition trendMap ::
  "(string \<Rightarrow> string) \<Rightarrow> string \<Rightarrow> SessionData list \<Rightarrow> (string \<times> MonthlyTrendData) list" where
  "trendMap monthKeyOf activeTrendView data =
     foldl (trendStep monthKeyOf (sortedMonths monthKeyOf data) activeTrendView) [] data"

text \<open>The derived metrics of a month: written only when the month has sessions.\<close>

definition deriveMonth :: "TrendValues \<Rightarrow> TrendValues" where
  "deriveMonth monthData =
     (if js_gt (TrendValues.sessions monthData) (Fin 0)
      then monthData
        \<lparr> avgVisits := js_div (attendance monthData) (TrendValues.sessions monthData),
          TrendValues.fillRate :=
            js_mul (js_div (attendance monthData)
                      (js_mul (TrendValues.sessions monthData) (Fin 15))) (Fin 100) \<rparr>
      else monthData)"

text \<open>
  The \<^verbatim>\<open>map\<close> callback over the trends. Every month of \<open>months\<close> has an entry in the
  trend, created with the trend, so \<^verbatim>\<open>trend[month]\<close> is defined in the inner loop.
\<close>

definition deriveTrend :: "string list \<Rightarrow> MonthlyTrendData \<Rightarrow> MonthlyTrendData" where
  "deriveTrend months trend =
     (let tv = totalValues trend;
          tv' = tv
            \<lparr> avgVisits :=
                (if js_gt (TrendValues.sessions tv) (Fin 0)
                 then js_div (attendance tv) (TrendValues.sessions tv) else Fin 0),
              TrendValues.fillRate :=
                (if js_gt (TrendValues.sessions tv) (Fin 0)
                 then js_mul (js_div (attendance tv) (js_mul (TrendValues.sessions tv) (Fin 15)))
                        (Fin 100)
                 else Fin 0) \<rparr>
      in trend
         \<lparr> totalValues := tv',
           monthValues :=
             map (\<lambda>(month, monthData).
                    (month, if month \<in> set months then deriveMonth monthData else monthData))
               (monthValues trend) \<rparr>)"

text \<open>
  The rows of the month-on-month table's \<^verbatim>\<open>processedData\<close>, in the order before the
  final sort: the threshold on the total number of sessions is the \<^verbatim>\<open>filter\<close> after the
  \<^verbatim>\<open>forEach\<close> and the \<^verbatim>\<open>map\<close>.
\<close>

definition trendProcessedData ::
  "(string \<Rightarrow> string) \<Rightarrow> string \<Rightarrow> number \<Rightarrow> SessionData list \<Rightarrow> MonthlyTrendData list" where
  "trendProcessedData monthKeyOf activeTrendView minSessions data =
    (if data = [] then []
     else filter (\<lambda>trend. js_ge (TrendValues.sessions (totalValues trend)) minSessions)
            (map (deriveTrend (sortedMonths monthKeyOf data))
               (object_values (trendMap monthKeyOf activeTrendView data))))"

section \<open>MultiMetricMonthlyTrendsTable\<close>

record MonthBreakdown =
  sessions :: number
  attendance :: number
  revenue :: number
  fillRate :: number

record TrendData =
  dimension :: string
  type :: string
  totalSessions :: number
  totalAttendance :: number
  totalRevenue :: number
  avgFillRate :: number
  avgUtilization :: number
  momSessionsChange :: number
  momAttendanceChange :: number
  momRevenueChange :: number
  monthlyBreakdown :: "(string \<times> MonthBreakdown) list"

definition newMonthBreakdown :: MonthBreakdown where
  "newMonthBreakdown = \<lparr> sessions = Fin 0, attendance = Fin 0, revenue = Fin 0, fillRate = Fin 0 \<rparr>"

definition newTrendData :: "string \<times> string \<Rightarrow> TrendData" where
  "newTrendData dk =
     \<lparr> dimension = fst dk, type = snd dk, totalSessions = Fin 0, totalAttendance = Fin 0,
       totalRevenue = Fin 0, avgFillRate = Fin 0, avgUtilization = Fin 0,
       momSessionsChange = Fin 0, momAttendanceChange = Fin 0, momRevenueChange = Fin 0,
       monthlyBreakdown = [] \<rparr>"

definition breakdownAddSession :: "SessionData \<Rightarrow> MonthBreakdown \<Rightarrow> MonthBreakdown" where
  "breakdownAddSession session monthData =
     (let n = MonthBreakdown.sessions monthData + Fin 1;
          a = MonthBreakdown.attendance monthData + orZero (checkedInCount session)
      in \<lparr> sessions = n,
           attendance = a,
           revenue = MonthBreakdown.revenue monthData + orZero (SessionData.totalPaid session),
           fillRate =
             (if truthyOpt (capacity session)
              then js_mul (js_div a (js_mul n (orZero (capacity session)))) (Fin 100)
              else Fin 0) \<rparr>)"

definition multiAddSession ::
  "(string \<Rightarrow> string) \<Rightarrow> SessionData \<Rightarrow> TrendData \<Rightarrow> TrendData" where
  "multiAddSession monthKeyOf session trend =
     trend
     \<lparr> monthlyBreakdown :=
         upsert (monthKeyOf (date session)) newMonthBreakdown (breakdownAddSession session)
           (monthlyBreakdown trend),
       TrendData.totalSessions := TrendData.totalSessions trend + Fin 1,
       totalAttendance := totalAttendance trend + orZero (checkedInCount session),
       TrendData.totalRevenue := TrendData.totalRevenue trend + orZero (SessionData.totalPaid session) \<rparr>"

definition multiStep ::
  "(string \<Rightarrow> string) \<Rightarrow> string \<Rightarrow> (string \<times> TrendData) list \<Rightarrow> SessionData \<Rightarrow>
   (string \<times> TrendData) list" where
  "multiStep monthKeyOf activeTrendView acc session =
     (let dk = dimensionOf activeTrendView session
      in upsert (fst dk) (newTrendData dk) (multiAddSession monthKeyOf session) acc)"

definition multiTrendMap ::
  "(string \<Rightarrow> string) \<Rightarrow> string \<Rightarrow> SessionData list \<Rightarrow> (string \<times> TrendData) list" where
  "multiTrendMap monthKeyOf activeTrendView data = foldl (multiStep monthKeyOf activeTrendView) [] data"

text \<open>
  The month-on-month changes of one trend. \<^verbatim>\<open>months\<close> are the keys of the trend's own
  \<^verbatim>\<open>monthlyBreakdown\<close>, sorted, so both lookups find an entry; the last case of the
  \<open>case\<close> below is never reached.
\<close>

definition momChanges :: "TrendData \<Rightarrow> TrendData" where
  "momChanges trend =
     (let months = sort (map fst (monthlyBreakdown trend))
      in if length months \<ge> 2
         then (case (map_of (monthlyBreakdown trend) (months ! (length months - 1)),
                     map_of (monthlyBreakdown trend) (months ! (length months - 2))) of
                 (Some latest, Some previous) \<Rightarrow>
                   trend
                   \<lparr> momSessionsChange :=
                       (if js_gt (MonthBreakdown.sessions previous) (Fin 0)
                        then js_mul (js_div (js_sub (MonthBreakdown.sessions latest)
                                               (MonthBreakdown.sessions previous))
                                       (MonthBreakdown.sessions previous)) (Fin 100)
                        else Fin 0),
                     momAttendanceChange :=
                       (if js_gt (MonthBreakdown.attendance previous) (Fin 0)
                        then js_mul (js_div (js_sub (MonthBreakdown.attendance latest)
                                               (MonthBreakdown.attendance previous))
                                       (MonthBreakdown.attendance previous)) (Fin 100)
                        else Fin 0),
                     momRevenueChange :=
                       (if js_gt (MonthBreakdown.revenue previous) (Fin 0)
                        then js_mul (js_div (js_sub (MonthBreakdown.revenue latest)
                                               (MonthBreakdown.revenue previous))
                                       (MonthBreakdown.revenue previous)) (Fin 100)
                        else Fin 0) \<rparr>
               | _ \<Rightarrow> trend)
         else trend)"

definition multiDerive :: "nat \<Rightarrow> TrendData \<Rightarrow> TrendData" where
  "multiDerive allMonthsLength trend =
     momChanges
       (trend
        \<lparr> avgFillRate :=
            (if js_gt (TrendData.totalSessions trend) (Fin 0)
             then js_mul (js_div (totalAttendance trend)
                            (js_mul (TrendData.totalSessions trend) (Fin 15))) (Fin 100)
             else Fin 0),
          avgUtilization :=
            (if js_gt (TrendData.totalSessions trend) (Fin 0)
             then js_mul
                    (js_div
                       (Fin (of_nat (length (filter (\<lambda>m. js_gt (MonthBreakdown.sessions m) (Fin 0))
                                              (object_values (monthlyBreakdown trend))))))
                       (Fin (of_nat allMonthsLength)))
                    (Fin 100)
             else Fin 0) \<rparr>)"

text \<open>The rows of \<^verbatim>\<open>processedTrendData\<close>, in the order before the final sort.\<close>

definition processedTrendData ::
  "(string \<Rightarrow> string) \<Rightarrow> string \<Rightarrow> SessionData list \<Rightarrow> TrendData list" where
  "processedTrendData monthKeyOf activeTrendView data =
    (if data = [] then []
     else map (multiDerive (length (sortedMonths monthKeyOf data)))
            (object_values (multiTrendMap monthKeyOf activeTrendView data)))"

section \<open>ImprovedClassAttendancePayrollTable\<close>

text \<open>The \<^verbatim>\<open>trends\<close> object starts empty: each of its fields is optional.\<close>

record PayrollTrends =
  sessionsChange :: "number option"
  customersChange :: "number option"
  revenueChange :: "number option"
  fillRateChange :: "number option"

record ProcessedPayrollData =
  location :: string
  teacherName :: string
  monthYear :: "string option"
  totalSessions :: number
  totalCustomers :: number
  totalPaid :: number
  emptySession :: number
  nonEmptySession :: number
  classAvgWithEmpty :: number
  classAvgWithoutEmpty :: number
  fillRate :: number
  cancelRate :: number
  revenuePerSession :: number
  utilizationRate :: number
  trends :: PayrollTrends

definition noTrends :: PayrollTrends where
  "noTrends = \<lparr> sessionsChange = None, customersChange = None, revenueChange = None,
     fillRateChange = None \<rparr>"

text \<open>
  The location filter. \<^verbatim>\<open>locationMap\<close> maps each of the three studio names to itself;
  another name has no target and the data stay unfiltered.
\<close>

definition filterByLocation :: "string option \<Rightarrow> PayrollData list \<Rightarrow> PayrollData list" where
  "filterByLocation loc data =
    (case loc of
       None \<Rightarrow> data
     | Some l \<Rightarrow>
         if l \<noteq> [] \<and> l \<noteq> ''all'' \<and>
            l \<in> {''Kwality House, Kemps Corner'', ''Supreme HQ, Bandra'', ''Kenkere House''}
         then filter (\<lambda>item. PayrollData.location item = l \<or>
                 (l = ''Kenkere House'' \<and> js_includes (PayrollData.location item) ''Kenkere''))
                data
         else data)"

definition payrollKey :: "PayrollData \<Rightarrow> string" where
  "payrollKey item =
     PayrollData.location item @ ''-'' @ PayrollData.teacherName item @ ''-'' @
     templ (PayrollData.monthYear item)"

definition newProcessedPayroll :: "PayrollData \<Rightarrow> ProcessedPayrollData" where
  "newProcessedPayroll item =
     \<lparr> location = PayrollData.location item, teacherName = PayrollData.teacherName item,
       monthYear = PayrollData.monthYear item,
       totalSessions = Fin 0, totalCustomers = Fin 0, totalPaid = Fin 0, emptySession = Fin 0,
       nonEmptySession = Fin 0, classAvgWithEmpty = Fin 0, classAvgWithoutEmpty = Fin 0,
       fillRate = Fin 0, cancelRate = Fin 0, revenuePerSession = Fin 0, utilizationRate = Fin 0,
       trends = noTrends \<rparr>"

definition payrollAdd :: "PayrollData \<Rightarrow> ProcessedPayrollData \<Rightarrow> ProcessedPayrollData" where
  "payrollAdd item entry =
     entry
     \<lparr> ProcessedPayrollData.totalSessions :=
         ProcessedPayrollData.totalSessions entry + orZero (PayrollData.totalSessions item),
       ProcessedPayrollData.totalCustomers :=
         ProcessedPayrollData.totalCustomers entry + orZero (PayrollData.totalCustomers item),
       ProcessedPayrollData.totalPaid :=
         ProcessedPayrollData.totalPaid entry + orZero (PayrollData.totalPaid item),
       emptySession := emptySession entry + orZero (totalEmptySessions item),
       nonEmptySession := nonEmptySession entry + orZero (totalNonEmptySessions item) \<rparr>"

definition payrollStep ::
  "(string \<times> ProcessedPayrollData) list \<Rightarrow> PayrollData \<Rightarrow> (string \<times> ProcessedPayrollData) list" where
  "payrollStep acc item = upsert (payrollKey item) (newProcessedPayroll item) (payrollAdd item) acc"

definition payrollGrouped :: "PayrollData list \<Rightarrow> (string \<times> ProcessedPayrollData) list" where
  "payrollGrouped filteredData = foldl payrollStep [] filteredData"

text \<open>The derived metrics of a row, written into the row before its trends are computed.\<close>

definition payrollMetrics :: "ProcessedPayrollData \<Rightarrow> ProcessedPayrollData" where
  "payrollMetrics item =
    (let n = ProcessedPayrollData.totalSessions item;
         totalCapacity = js_mul n (Fin 15)
     in item
        \<lparr> classAvgWithEmpty :=
            (if js_gt n (Fin 0) then js_div (ProcessedPayrollData.totalCustomers item) n else Fin 0),
          classAvgWithoutEmpty :=
            (if js_gt (nonEmptySession item) (Fin 0)
             then js_div (ProcessedPayrollData.totalCustomers item) (nonEmptySession item)
             else Fin 0),
          ProcessedPayrollData.fillRate :=
            (if js_gt totalCapacity (Fin 0)
             then js_mul (js_div (ProcessedPayrollData.totalCustomers item) totalCapacity) (Fin 100)
             else Fin 0),
          cancelRate :=
            (if js_gt n (Fin 0) then js_mul (js_div (emptySession item) n) (Fin 100) else Fin 0),
          revenuePerSession :=
            (if js_gt n (Fin 0) then js_div (ProcessedPayrollData.totalPaid item) n else Fin 0),
          ProcessedPayrollData.utilizationRate :=
            (if js_gt n (Fin 0)
             then js_mul (js_div (js_sub n (emptySession item)) n) (Fin 100)
             else Fin 0) \<rparr>)"

text \<open>
  The key of the previous month is computed by the \<^verbatim>\<open>Date\<close> built-in: the month
  before \<^verbatim>\<open>new Date(item.monthYear + '-01')\<close>, printed as \<^verbatim>\<open>YYYY-MM\<close>. The function
  from the string \<^verbatim>\<open>item.monthYear + '-01'\<close> to that key is the parameter
  \<open>prevMonthKeyOf\<close> of the model.
\<close>

definition payrollTrends ::
  "ProcessedPayrollData \<Rightarrow> ProcessedPayrollData \<Rightarrow> PayrollTrends" where
  "payrollTrends item prevData =
     \<lparr> sessionsChange =
         Some (if js_gt (ProcessedPayrollData.totalSessions prevData) (Fin 0)
               then js_mul (js_div (js_sub (ProcessedPayrollData.totalSessions item)
                                      (ProcessedPayrollData.totalSessions prevData))
                              (ProcessedPayrollData.totalSessions prevData)) (Fin 100)
               else Fin 0),
       customersChange =
         Some (if js_gt (ProcessedPayrollData.totalCustomers prevData) (Fin 0)
               then js_mul (js_div (js_sub (ProcessedPayrollData.totalCustomers item)
                                      (ProcessedPayrollData.totalCustomers prevData))
                              (ProcessedPayrollData.totalCustomers prevData)) (Fin 100)
               else Fin 0),
       revenueChange =
         Some (if js_gt (ProcessedPayrollData.totalPaid prevData) (Fin 0)
               then js_mul (js_div (js_sub (ProcessedPayrollData.totalPaid item)
                                      (ProcessedPayrollData.totalPaid prevData))
                              (ProcessedPayrollData.totalPaid prevData)) (Fin 100)
               else Fin 0),
       fillRateChange =
         Some (js_sub (ProcessedPayrollData.fillRate item) (ProcessedPayrollData.fillRate prevData)) \<rparr>"

text \<open>
  The \<^verbatim>\<open>map\<close> callback updates the row objects in place, so the \<^verbatim>\<open>find\<close> of a later
  row sees the metrics of the rows before it. The state is the list of rows; \<open>payrollAt i\<close>
  is the callback on the row at index \<open>i\<close>.
\<close>

definition payrollAt ::
  "(string \<Rightarrow> string) \<Rightarrow> ProcessedPayrollData list \<Rightarrow> nat \<Rightarrow> ProcessedPayrollData list" where
  "payrollAt prevMonthKeyOf rows i =
    (let item = payrollMetrics (rows ! i);
         rows' = rows[i := item];
         prevMonthKey = prevMonthKeyOf (templ (ProcessedPayrollData.monthYear item) @ ''-01'')
     in case find (\<lambda>p. ProcessedPayrollData.location p = ProcessedPayrollData.location item \<and>
                        ProcessedPayrollData.teacherName p = ProcessedPayrollData.teacherName item \<and>
                        ProcessedPayrollData.monthYear p = Some prevMonthKey) rows' of
          None \<Rightarrow> rows'
        | Some prevData \<Rightarrow> rows'[i := item \<lparr> trends := payrollTrends item prevData \<rparr>])"

text \<open>The rows of the payroll table's \<^verbatim>\<open>processedData\<close>, in the order before the final sort.\<close>

definition payrollProcessedData ::
  "(string \<Rightarrow> string) \<Rightarrow> string option \<Rightarrow> PayrollData list \<Rightarrow> ProcessedPayrollData list" where
  "payrollProcessedData prevMonthKeyOf loc data =
    (if data = [] then []
     else let rows = object_values (payrollGrouped (filterByLocation loc data))
          in foldl (payrollAt prevMonthKeyOf) rows [0..<length rows])"

section \<open>The payroll matrix: getMonthTrend\<close>

text \<open>
  The month cells of the payroll matrix. \<^verbatim>\<open>currentMonth[metric]\<close> reads a property by
  its name; a name that is no property of the cell reads \<^verbatim>\<open>undefined\<close>. A cell that does
  not exist (\<^verbatim>\<open>undefined\<close> or \<^verbatim>\<open>null\<close>) is \<open>None\<close>, and so is the result
  \<^verbatim>\<open>null\<close>.
\<close>

record MonthCell =
  totalSessions :: number
  totalCustomers :: number
  totalPaid :: number
  emptySession :: number
  nonEmptySession :: number
  classAvgWithEmpty :: number
  classAvgWithoutEmpty :: number
  fillRate :: number
  cancelRate :: number

definition cellMetric :: "MonthCell \<Rightarrow> string \<Rightarrow> number option" where
  "cellMetric c metric =
    (if metric = ''totalSessions'' then Some (MonthCell.totalSessions c)
     else if metric = ''totalCustomers'' then Some (MonthCell.totalCustomers c)
     else if metric = ''totalPaid'' then Some (MonthCell.totalPaid c)
     else if metric = ''emptySession'' then Some (MonthCell.emptySession c)
     else if metric = ''nonEmptySession'' then Some (MonthCell.nonEmptySession c)
     else if metric = ''classAvgWithEmpty'' then Some (MonthCell.classAvgWithEmpty c)
     else if metric = ''classAvgWithoutEmpty'' then Some (MonthCell.classAvgWithoutEmpty c)
     else if metric = ''fillRate'' then Some (MonthCell.fillRate c)
     else if metric = ''cancelRate'' then Some (MonthCell.cancelRate c)
     else None)"

definition getMonthTrend :: "MonthCell option \<Rightarrow> MonthCell option \<Rightarrow> string \<Rightarrow> number option" where
  "getMonthTrend currentMonth previousMonth metric =
    (case (previousMonth, currentMonth) of
       (Some p, Some c) \<Rightarrow>
         (let current = orZero (cellMetric c metric);
              previous = orZero (cellMetric p metric)
          in if js_eq previous (Fin 0) then None
             else let change = js_mul (js_div (js_sub current previous) previous) (Fin 100)
                  in if js_lt (js_abs change) (Fin (1 / 10)) then None else Some change)
     | _ \<Rightarrow> None)"

section \<open>PowerCycleBarreStrengthYearOnYearTable\<close>

text \<open>\<^verbatim>\<open>s.split(c)\<close> for a one-character separator.\<close>

fun splitOn :: "char \<Rightarrow> string \<Rightarrow> string list" where
  "splitOn c [] = [[]]"
| "splitOn c (x # xs) =
     (if x = c then [] # splitOn c xs
      else (case splitOn c xs of w # ws \<Rightarrow> (x # w) # ws | [] \<Rightarrow> [[x]]))"

record YearTotals =
  revenue :: number
  sessions :: number
  customers :: number
  cycleRevenue :: number
  barreRevenue :: number
  strengthRevenue :: number

record TrainerYears =
  trainerName :: string
  location :: string
  years :: "(string \<times> ProcessedTrainerData list) list"

record YearOnYearComparison =
  trainerName :: string
  location :: string
  currentYear :: YearTotals
  previousYear :: YearTotals
  revenueGrowth :: number
  sessionGrowth :: number
  customerGrowth :: number
  topFormat :: string
  formatGrowth :: "(string \<times> number) list"

definition trainerKey :: "ProcessedTrainerData \<Rightarrow> string" where
  "trainerKey trainer =
     ProcessedTrainerData.trainerName trainer @ ''-'' @ ProcessedTrainerData.location trainer"

text \<open>\<^verbatim>\<open>trainer.monthYear?.split('-')[1] || '2024'\<close>.\<close>

definition yearOf :: "ProcessedTrainerData \<Rightarrow> string" where
  "yearOf trainer =
     (case splitOn CHR ''-'' (ProcessedTrainerData.monthYear trainer) of
        _ # y # _ \<Rightarrow> orElse (Some y) ''2024''
      | _ \<Rightarrow> ''2024'')"

definition newTrainerYears :: "ProcessedTrainerData \<Rightarrow> TrainerYears" where
  "newTrainerYears trainer =
     \<lparr> TrainerYears.trainerName = ProcessedTrainerData.trainerName trainer,
       TrainerYears.location = ProcessedTrainerData.location trainer, years = [] \<rparr>"

definition addTrainerYear :: "ProcessedTrainerData \<Rightarrow> TrainerYears \<Rightarrow> TrainerYears" where
  "addTrainerYear trainer trainerData =
     trainerData \<lparr> years := upsert (yearOf trainer) [] (\<lambda>l. l @ [trainer]) (years trainerData) \<rparr>"

definition trainerStep ::
  "(string \<times> TrainerYears) list \<Rightarrow> ProcessedTrainerData \<Rightarrow> (string \<times> TrainerYears) list" where
  "trainerStep acc trainer =
     upsert (trainerKey trainer) (newTrainerYears trainer) (addTrainerYear trainer) acc"

definition trainerMap :: "ProcessedTrainerData list \<Rightarrow> (string \<times> TrainerYears) list" where
  "trainerMap data = foldl trainerStep [] data"

definition addYearTotals :: "YearTotals \<Rightarrow> ProcessedTrainerData \<Rightarrow> YearTotals" where
  "addYearTotals acc t =
     \<lparr> revenue = YearTotals.revenue acc + ProcessedTrainerData.totalPaid t,
       sessions = YearTotals.sessions acc + ProcessedTrainerData.totalSessions t,
       customers = customers acc + ProcessedTrainerData.totalCustomers t,
       cycleRevenue = YearTotals.cycleRevenue acc + ProcessedTrainerData.cycleRevenue t,
       barreRevenue = YearTotals.barreRevenue acc + ProcessedTrainerData.barreRevenue t,
       strengthRevenue = YearTotals.strengthRevenue acc + ProcessedTrainerData.strengthRevenue t \<rparr>"

definition yearTotals :: "ProcessedTrainerData list \<Rightarrow> YearTotals" where
  "yearTotals yearData =
     foldl addYearTotals
       \<lparr> revenue = Fin 0, sessions = Fin 0, customers = Fin 0, cycleRevenue = Fin 0,
         barreRevenue = Fin 0, strengthRevenue = Fin 0 \<rparr> yearData"

text \<open>
  The first entry of the three formats sorted by descending revenue. The sort is stable, so
  among equal revenues the earlier format stays first. When a revenue is \<^verbatim>\<open>NaN\<close> the
  comparator is inconsistent and the language leaves the order open; the model then takes
  the first format that is not below the later ones.
\<close>

definition topFormatOf :: "YearTotals \<Rightarrow> string" where
  "topFormatOf current =
     (if js_ge (YearTotals.cycleRevenue current) (YearTotals.barreRevenue current) \<and>
         js_ge (YearTotals.cycleRevenue current) (YearTotals.strengthRevenue current)
      then ''PowerCycle''
      else if js_ge (YearTotals.barreRevenue current) (YearTotals.strengthRevenue current)
      then ''Barre'' else ''Strength Lab'')"

text \<open>
  The body of \<^verbatim>\<open>trainerMap.forEach\<close>: the rows it pushes for one trainer (one or none).
  Both years are keys of the trainer's \<^verbatim>\<open>years\<close>, so the lookups find their lists and the
  last case is never reached.
\<close>

definition compareYears :: "TrainerYears \<Rightarrow> YearOnYearComparison list" where
  "compareYears trainer =
    (let ys = sort (map fst (years trainer))
     in if length ys \<ge> 2
        then (case (map_of (years trainer) (ys ! (length ys - 1)),
                    map_of (years trainer) (ys ! (length ys - 2))) of
                (Some currentData, Some previousData) \<Rightarrow>
                  (let current = yearTotals currentData;
                       previous = yearTotals previousData
                   in [\<lparr> trainerName = TrainerYears.trainerName trainer,
                          location = TrainerYears.location trainer,
                          currentYear = current,
                          previousYear = previous,
                          revenueGrowth =
                            (if js_gt (YearTotals.revenue previous) (Fin 0)
                             then js_mul (js_div (js_sub (YearTotals.revenue current)
                                                    (YearTotals.revenue previous))
                                            (YearTotals.revenue previous)) (Fin 100)
                             else Fin 0),
                          sessionGrowth =
                            (if js_gt (YearTotals.sessions previous) (Fin 0)
                             then js_mul (js_div (js_sub (YearTotals.sessions current) (YearTotals.sessions previous)) (YearTotals.sessions previous)) (Fin 100)
                             else Fin 0),
                          customerGrowth = (if js_gt (customers previous) (Fin 0)
                             then js_mul (js_div (js_sub (customers current) (customers previous)) (customers previous)) (Fin 100)
                             else Fin 0),
                          topFormat = topFormatOf current,
                          formatGrowth =
                            [(''PowerCycle'',
                              (if js_gt (YearTotals.cycleRevenue previous) (Fin 0)
                             then js_mul (js_div (js_sub (YearTotals.cycleRevenue current) (YearTotals.cycleRevenue previous)) (YearTotals.cycleRevenue previous)) (Fin 100)
                             else Fin 0)),
                             (''Barre'',
                              (if js_gt (YearTotals.barreRevenue previous) (Fin 0)
                             then js_mul (js_div (js_sub (YearTotals.barreRevenue current) (YearTotals.barreRevenue previous)) (YearTotals.barreRevenue previous)) (Fin 100)
                             else Fin 0)),
                             (''Strength Lab'',
                              (if js_gt (YearTotals.strengthRevenue previous) (Fin 0)
                             then js_mul (js_div (js_sub (YearTotals.strengthRevenue current) (YearTotals.strengthRevenue previous)) (YearTotals.strengthRevenue previous)) (Fin 100)
                             else Fin 0))] \<rparr>])
              | _ \<Rightarrow> [])
        else [])"

definition yearOnYearData :: "ProcessedTrainerData list \<Rightarrow> YearOnYearComparison list" where
  "yearOnYearData data = concat (map compareYears (object_values (trainerMap data)))"

section \<open>The period-over-period delta of the specification\<close>

text \<open>
  The delta as the specification words it:
  \<^verbatim>\<open>delta(metric, periodA, periodB) = (valueB - valueA) / valueA * 100\<close> when
  \<^verbatim>\<open>valueA > 0\<close>, else \<^verbatim>\<open>0\<close>. It is compared below with what the tables compute.
\<close>

definition delta :: "number \<Rightarrow> number \<Rightarrow> number" where
  "delta valueA valueB =
     (if js_gt valueA (Fin 0) then js_mul (js_div (js_sub valueB valueA) valueA) (Fin 100)
      else Fin 0)"

section \<open>Sample records\<close>

text \<open>Concrete records, on which the theorems below are evaluated.\<close>

definition session_a :: SessionData where
  "session_a =
    \<lparr> cleanedClass = Some ''Barre 57'', classType = Some ''Studio Barre 57'',
      trainerName = Some ''Asha'', location = Some ''Kenkere House'',
      dayOfWeek = Some ''Monday'', time = Some ''09:00'', date = ''2024-01-05'',
      capacity = Some (Fin 30), checkedInCount = Some (Fin 20), bookedCount = Some (Fin 25),
      lateCancelledCount = Some (Fin 2), totalPaid = Some (Fin 100) \<rparr>"

definition session_b :: SessionData where
  "session_b = session_a \<lparr> date := ''2024-02-05'', checkedInCount := Some (Fin 25) \<rparr>"

definition session_c :: SessionData where
  "session_c = session_a \<lparr> date := ''2024-04-01'', checkedInCount := None \<rparr>"

definition session_hosted :: SessionData where
  "session_hosted = session_a \<lparr> cleanedClass := Some ''Hosted Class'' \<rparr>"

definition session_cycle :: SessionData where
  "session_cycle =
     session_a \<lparr> cleanedClass := None, SessionData.classType := Some ''PowerCycle'',
       capacity := Some (Fin 10), checkedInCount := Some (Fin 20) \<rparr>"

definition session_unbounded :: SessionData where
  "session_unbounded = session_a \<lparr> capacity := Some PInf, checkedInCount := Some PInf \<rparr>"

definition session_walkin :: SessionData where
  "session_walkin =
     session_a \<lparr> cleanedClass := Some ''Open Studio'', capacity := None, bookedCount := None,
       lateCancelledCount := None, checkedInCount := Some (Fin 5), SessionData.totalPaid := Some (Fin 0) \<rparr>"

text \<open>The month key of a date written \<^verbatim>\<open>YYYY-MM-DD\<close>.\<close>

definition isoMonthKey :: "string \<Rightarrow> string" where
  "isoMonthKey d = take 7 d"

definition sample_sessions :: "SessionData list" where
  "sample_sessions = [session_a, session_hosted, session_cycle, session_b, session_c]"

definition payroll_sample :: PayrollData where
  "payroll_sample =
    \<lparr> teacherId = ''t1'', teacherName = ''Asha'', teacherEmail = ''asha@example.com'',
      location = ''Kenkere House'', monthYear = Some ''Feb-2024'',
      totalSessions = Some (Fin 10), totalEmptySessions = Some (Fin 2),
      totalNonEmptySessions = Some (Fin 8), totalCustomers = Some (Fin 40),
      totalPaid = Some (Fin 5000),
      cycleSessions = Some (Fin 6), emptyCycleSessions = Some (Fin 1),
      nonEmptyCycleSessions = Some (Fin 5), cycleCustomers = Some (Fin 25),
      cyclePaid = Some (Fin 3000),
      barreSessions = Some (Fin 4), emptyBarreSessions = Some (Fin 1),
      nonEmptyBarreSessions = Some (Fin 3), barreCustomers = Some (Fin 15),
      barrePaid = Some (Fin 2000),
      converted = Some (Fin 3), retained = Some (Fin 5),
      conversion = Some (Fin 30), retention = None, unique = None \<rparr>"

definition cell_jan :: MonthCell where
  "cell_jan =
    \<lparr> totalSessions = Fin 10, totalCustomers = Fin 40, totalPaid = Fin 1000, emptySession = Fin 2,
      nonEmptySession = Fin 8, classAvgWithEmpty = Fin 4, classAvgWithoutEmpty = Fin 5,
      fillRate = Fin (80 / 3), cancelRate = Fin 20 \<rparr>"

definition cell_feb :: MonthCell where
  "cell_feb = cell_jan \<lparr> MonthCell.totalPaid := Fin 1500, MonthCell.totalCustomers := Fin 0 \<rparr>"

definition payroll_2023 :: PayrollData where
  "payroll_2023 =
     payroll_sample \<lparr> PayrollData.monthYear := Some ''Feb-2023'',
       PayrollData.totalPaid := Some (Fin 4000) \<rparr>"

definition payroll_ravi :: PayrollData where
  "payroll_ravi =
     payroll_sample \<lparr> PayrollData.teacherName := ''Ravi'',
       PayrollData.monthYear := Some ''Mar-2023'' \<rparr>"

definition trainer_rows :: "ProcessedTrainerData list" where
  "trainer_rows = processTrainerData [payroll_2023, payroll_ravi, payroll_sample]"

text \<open>
  The key of the month before the first day of a month, as the \<^verbatim>\<open>Date\<close> built-in
  computes it in a time zone at or east of UTC, for the three dates used below.
\<close>

definition calendarPrevMonth :: "string \<Rightarrow> string" where
  "calendarPrevMonth d =
     (if d = ''2024-03-01'' then ''2024-02''
      else if d = ''2024-02-01'' then ''2024-01''
      else if d = ''2024-01-01'' then ''2023-12''
      else ''NaN-NaN'')"

definition payroll_jan :: PayrollData where
  "payroll_jan =
     payroll_sample \<lparr> PayrollData.monthYear := Some ''2024-01'',
       PayrollData.totalSessions := Some (Fin 8) \<rparr>"

definition payroll_feb :: PayrollData where
  "payroll_feb =
     payroll_sample \<lparr> PayrollData.monthYear := Some ''2024-02'',
       PayrollData.totalSessions := Some (Fin 10) \<rparr>"

definition payroll_mar :: PayrollData where
  "payroll_mar =
     payroll_sample \<lparr> PayrollData.monthYear := Some ''2024-03'',
       PayrollData.totalSessions := Some (Fin 12) \<rparr>"

definition payroll_busy :: PayrollData where
  "payroll_busy = payroll_sample \<lparr> PayrollData.totalCustomers := Some (Fin 200) \<rparr>"

lemma upsert_keys:
  "map fst (upsert k i f kvs) = (if k \<in> set (map fst kvs) then map fst kvs else map fst kvs @ [k])"
  by (induction kvs) force+

lemma upsert_key_set: "fst ` set (upsert k i f kvs) = insert k (fst ` set kvs)"
  using arg_cong [OF upsert_keys [of k i f kvs], of set] by (auto simp: image_iff)

lemma upsert_distinct:
  "distinct (map fst kvs) \<Longrightarrow> distinct (map fst (upsert k i f kvs))"
  by (simp add: upsert_keys)

lemma upsert_map_of:
  "map_of (upsert k i f kvs) k' =
     (if k' = k then Some (f (case map_of kvs k of None \<Rightarrow> i | Some v \<Rightarrow> v)) else map_of kvs k')"
  by (induction kvs) auto

lemma sum_list_single_key:
  fixes c :: "'b::comm_monoid_add"
  shows "distinct ks \<Longrightarrow> a \<in> set ks \<Longrightarrow> (\<Sum>k\<leftarrow>ks. if a = k then c else 0) = c"
proof (induction ks)
  case Nil
  then show ?case by simp
next
  case (Cons k ks)
  show ?case
  proof (cases "a = k")
    case True
    with Cons.prems have "a \<notin> set ks" by simp
    then have "(\<Sum>k\<leftarrow>ks. if a = k then c else 0) = 0"
      by (induction ks) auto
    with True show ?thesis by simp
  next
    case False
    with Cons show ?thesis by simp
  qed
qed

lemma sum_list_by_key:
  fixes g :: "'a \<Rightarrow> 'b::comm_monoid_add"
  assumes "distinct ks"
  shows "(\<forall>x\<in>set xs. key x \<in> set ks) \<Longrightarrow>
    (\<Sum>k\<leftarrow>ks. \<Sum>x\<leftarrow>filter (\<lambda>x. key x = k) xs. g x) = (\<Sum>x\<leftarrow>xs. g x)"
proof (induction xs)
  case Nil
  then show ?case by simp
next
  case (Cons x xs)
  have "(\<Sum>k\<leftarrow>ks. \<Sum>y\<leftarrow>filter (\<lambda>y. key y = k) (x # xs). g y)
      = (\<Sum>k\<leftarrow>ks. (if key x = k then g x else 0) + (\<Sum>y\<leftarrow>filter (\<lambda>y. key y = k) xs. g y))"
    by (rule arg_cong [where f = sum_list], rule map_cong) auto
  also have "\<dots> = (\<Sum>k\<leftarrow>ks. if key x = k then g x else 0)
      + (\<Sum>k\<leftarrow>ks. \<Sum>y\<leftarrow>filter (\<lambda>y. key y = k) xs. g y)"
    by (simp add: sum_list_addf)
  also have "\<dots> = g x + (\<Sum>y\<leftarrow>xs. g y)"
    using Cons assms by (simp add: sum_list_single_key)
  finally show ?case by simp
qed

definition groupFold ::
  "('a \<Rightarrow> bool) \<Rightarrow> ('a \<Rightarrow> 'k) \<Rightarrow> ('a \<Rightarrow> 'v) \<Rightarrow> ('a \<Rightarrow> 'v \<Rightarrow> 'v) \<Rightarrow> 'a list \<Rightarrow> ('k \<times> 'v) list" where
  "groupFold keep key init upd xs =
     foldl (\<lambda>acc x. if keep x then upsert (key x) (init x) (upd x) acc else acc) [] xs"

fun foldRow :: "('a \<Rightarrow> 'v) \<Rightarrow> ('a \<Rightarrow> 'v \<Rightarrow> 'v) \<Rightarrow> 'a list \<Rightarrow> 'v option" where
  "foldRow init upd [] = None"
| "foldRow init upd (x # xs) = Some (foldl (\<lambda>v y. upd y v) (init x) (x # xs))"

lemma foldRow_snoc:
  "foldRow init upd (ys @ [s]) =
     Some (upd s (case foldRow init upd ys of None \<Rightarrow> init s | Some v \<Rightarrow> v))"
  by (cases ys) simp_all

lemma groupFold_Nil: "groupFold keep key init upd [] = []"
  by (simp add: groupFold_def)

lemma groupFold_snoc:
  "groupFold keep key init upd (xs @ [x]) =
     (if keep x then upsert (key x) (init x) (upd x) (groupFold keep key init upd xs)
      else groupFold keep key init upd xs)"
  by (simp add: groupFold_def)

lemma groupFold_distinct: "distinct (map fst (groupFold keep key init upd xs))"
  by (induction xs rule: rev_induct) (simp_all add: groupFold_Nil groupFold_snoc upsert_distinct)

lemma groupFold_keys:
  "fst ` set (groupFold keep key init upd xs) = key ` {x \<in> set xs. keep x}"
  by (induction xs rule: rev_induct) (auto simp: groupFold_Nil groupFold_snoc upsert_key_set)

lemma groupFold_map_of:
  "map_of (groupFold keep key init upd xs) k =
     foldRow init upd (filter (\<lambda>x. keep x \<and> key x = k) xs)"
  by (induction xs arbitrary: k rule: rev_induct)
     (simp_all add: groupFold_Nil groupFold_snoc upsert_map_of foldRow_snoc)

lemma groupFold_entry:
  "(k, v) \<in> set (groupFold keep key init upd xs) \<longleftrightarrow>
     foldRow init upd (filter (\<lambda>x. keep x \<and> key x = k) xs) = Some v"
  using groupFold_distinct [of keep key init upd xs]
  by (simp add: groupFold_map_of [symmetric])

lemma sum_list_Fin_one: "(\<Sum>x\<leftarrow>xs. Fin 1) = Fin (of_nat (length xs))"
  by (induction xs) simp_all

lemma groupFold_filter:
  "groupFold keep key init upd (filter keep xs) = groupFold keep key init upd xs"
  by (induction xs rule: rev_induct) (simp_all add: groupFold_Nil groupFold_snoc)

fun nonnegFinite :: "number \<Rightarrow> bool" where
  "nonnegFinite (Fin a) = (0 \<le> a)"
| "nonnegFinite _ = False"

definition finiteInput :: "number option \<Rightarrow> bool" where
  "finiteInput x = (x \<noteq> Some PInf \<and> x \<noteq> Some NInf)"

text \<open>
  An input field counts as finite when it is missing, \<^verbatim>\<open>NaN\<close> (both read as 0 through
  \<^verbatim>\<open>|| 0\<close>) or a finite number, and as non-negative when that number is not below 0.
\<close>

definition nonNegativeInput :: "number option \<Rightarrow> bool" where
  "nonNegativeInput x = nonnegFinite (orZero x)"

definition inPercentRange :: "number \<Rightarrow> bool" where
  "inPercentRange x = (js_ge x (Fin 0) \<and> js_ge (Fin 100) x)"

lemma is_finite_iff: "is_finite x \<longleftrightarrow> (\<exists>a. x = Fin a)"
  by (cases x) simp_all

lemma nonnegFinite_iff: "nonnegFinite x \<longleftrightarrow> (\<exists>a. x = Fin a \<and> 0 \<le> a)"
  by (cases x) simp_all

lemma finiteInput_orZero: "finiteInput x \<longleftrightarrow> is_finite (orZero x)"
proof (cases x)
  case None
  then show ?thesis by (simp add: finiteInput_def)
next
  case (Some y)
  then show ?thesis by (cases y) (simp_all add: finiteInput_def)
qed

lemma is_finite_add: "is_finite x \<Longrightarrow> is_finite y \<Longrightarrow> is_finite (x + y)"
  by (auto simp: is_finite_iff)

lemma nonnegFinite_add: "nonnegFinite x \<Longrightarrow> nonnegFinite y \<Longrightarrow> nonnegFinite (x + y)"
  by (auto simp: nonnegFinite_iff)

lemma is_finite_sum_list:
  "\<forall>x\<in>set xs. is_finite (f x) \<Longrightarrow> is_finite (\<Sum>x\<leftarrow>xs. f x)"
  by (induction xs) (simp_all add: is_finite_add)

lemma nonnegFinite_sum_list:
  "\<forall>x\<in>set xs. nonnegFinite (f x) \<Longrightarrow> nonnegFinite (\<Sum>x\<leftarrow>xs. f x)"
  by (induction xs) (simp_all add: nonnegFinite_add)

lemma js_ge_Fin: "js_ge (Fin a) (Fin b) \<longleftrightarrow> b \<le> a"
  by auto

lemma js_gt_zero_cases: "\<not> js_gt x (Fin 0) \<or> x = PInf \<or> (\<exists>a. x = Fin a \<and> 0 < a)"
  by (cases x) simp_all

text \<open>a guarded ratio is finite when both sides are, and 0 when denominator is 0\<close>

definition ratio :: "number \<Rightarrow> number \<Rightarrow> number" where
  "ratio num den = (if js_gt den (Fin 0) then js_div num den else Fin 0)"

definition percent :: "number \<Rightarrow> number \<Rightarrow> number" where
  "percent num den = (if js_gt den (Fin 0) then js_mul (js_div num den) (Fin 100) else Fin 0)"

lemma ratio_finite: "is_finite num \<Longrightarrow> is_finite den \<Longrightarrow> is_finite (ratio num den)"
  by (auto simp: is_finite_iff ratio_def)

lemma percent_finite: "is_finite num \<Longrightarrow> is_finite den \<Longrightarrow> is_finite (percent num den)"
  by (auto simp: is_finite_iff percent_def)

lemma ratio_zero: "ratio num (Fin 0) = Fin 0" "percent num (Fin 0) = Fin 0"
  by (simp_all add: ratio_def percent_def)

lemma percent_nonneg:
  "nonnegFinite num \<Longrightarrow> nonnegFinite den \<Longrightarrow> js_ge (percent num den) (Fin 0)"
proof -
  assume "nonnegFinite num" "nonnegFinite den"
  then obtain a b where ab: "num = Fin a" "0 \<le> a" "den = Fin b" "0 \<le> b"
    by (auto simp: nonnegFinite_iff)
  then have "0 \<le> a / b * 100" by simp
  with ab show ?thesis
    by (simp add: percent_def js_ge_Fin del: js_ge.simps)
qed

lemma percent_le_100:
  "nonnegFinite num \<Longrightarrow> nonnegFinite den \<Longrightarrow>
     js_ge (Fin 100) (percent num den) \<longleftrightarrow> den = Fin 0 \<or> js_ge den num"
proof -
  assume "nonnegFinite num" "nonnegFinite den"
  then obtain a b where ab: "num = Fin a" "0 \<le> a" "den = Fin b" "0 \<le> b"
    by (auto simp: nonnegFinite_iff)
  show ?thesis
  proof (cases "b = 0")
    case True
    with ab show ?thesis by (simp add: percent_def)
  next
    case False
    with ab have "0 < b" by simp
    then have "a / b * 100 \<le> 100 \<longleftrightarrow> a \<le> b"
      by (simp add: field_simps)
    with ab \<open>0 < b\<close> show ?thesis
      by (simp add: percent_def js_ge_Fin del: js_ge.simps)
  qed
qed

lemma js_sub_Fin: "js_sub (Fin a) (Fin b) = Fin (a - b)"
  by (simp add: js_sub_def)

lemma percent_of_part:
  assumes "m \<le> n"
  shows "inPercentRange (percent (js_sub (Fin (of_nat n)) (Fin (of_nat m))) (Fin (of_nat n)))"
proof -
  let ?num = "js_sub (Fin (of_nat n)) (Fin (of_nat m))"
  have num: "?num = Fin (of_nat (n - m))"
    using assms by (simp add: js_sub_Fin of_nat_diff)
  have nn: "nonnegFinite ?num" "nonnegFinite (Fin (of_nat n))"
    by (simp_all add: num)
  have "js_ge (Fin (of_nat n)) ?num"
    by (simp add: num js_ge_Fin del: js_ge.simps)
  with nn show ?thesis
    by (simp add: inPercentRange_def percent_nonneg percent_le_100 del: js_ge.simps)
qed

abbreviation notHosted :: "SessionData \<Rightarrow> bool" where
  "notHosted s \<equiv> \<not> isHosted (classFormatOf s)"

definition groupRow :: "string \<Rightarrow> SessionData list \<Rightarrow> ClassFormatData" where
  "groupRow cf ss = foldl (\<lambda>classData session. addSession session classData) (newClassFormatData cf) ss"

lemma groupRow_Nil: "groupRow cf [] = newClassFormatData cf"
  by (simp add: groupRow_def)

lemma groupRow_snoc: "groupRow cf (ss @ [s]) = addSession s (groupRow cf ss)"
  by (simp add: groupRow_def)

lemma groupRow_classFormat: "classFormat (groupRow cf ss) = cf"
  by (induction ss rule: rev_induct)
     (simp_all add: groupRow_Nil groupRow_snoc newClassFormatData_def addSession_def)

lemma groupRow_sessions: "ClassFormatData.sessions (groupRow cf ss) = ss"
  by (induction ss rule: rev_induct)
     (simp_all add: groupRow_Nil groupRow_snoc newClassFormatData_def addSession_def)

lemma groupRow_totalSessions:
  "ClassFormatData.totalSessions (groupRow cf ss) = Fin (of_nat (length ss))"
  by (induction ss rule: rev_induct)
     (simp_all add: groupRow_Nil groupRow_snoc newClassFormatData_def addSession_def)

lemma groupRow_sums:
  "ClassFormatData.totalCheckedIn (groupRow cf ss) = (\<Sum>s\<leftarrow>ss. orZero (checkedInCount s))"
  "ClassFormatData.totalRevenue (groupRow cf ss) = (\<Sum>s\<leftarrow>ss. orZero (SessionData.totalPaid s))"
  "ClassFormatData.totalCapacity (groupRow cf ss) = (\<Sum>s\<leftarrow>ss. orZero (capacity s))"
  "ClassFormatData.totalBooked (groupRow cf ss) = (\<Sum>s\<leftarrow>ss. orZero (bookedCount s))"
  "ClassFormatData.totalLateCancelled (groupRow cf ss) = (\<Sum>s\<leftarrow>ss. orZero (lateCancelledCount s))"
  by (induction ss rule: rev_induct;
      simp add: groupRow_Nil groupRow_snoc newClassFormatData_def addSession_def)+

lemma groupRow_emptySessions:
  "ClassFormatData.emptySessions (groupRow cf ss) =
     Fin (of_nat (length (filter (\<lambda>s. js_eq (orZero (checkedInCount s)) (Fin 0)) ss)))"
  by (induction ss rule: rev_induct)
     (simp_all add: groupRow_Nil groupRow_snoc newClassFormatData_def addSession_def)

lemma groupRow_revenueGenerating:
  "ClassFormatData.revenueGeneratingSessions (groupRow cf ss) =
     Fin (of_nat (length (filter (\<lambda>s. js_gt (orZero (SessionData.totalPaid s)) (Fin 0)) ss)))"
  by (induction ss rule: rev_induct)
     (simp_all add: groupRow_Nil groupRow_snoc newClassFormatData_def addSession_def)

lemma grouped_groupFold:
  "grouped data =
     groupFold notHosted classFormatOf (\<lambda>s. newClassFormatData (classFormatOf s)) addSession data"
  unfolding grouped_def groupFold_def
  by (rule arg_cong [where f = "\<lambda>f. foldl f [] data"]) (simp add: fun_eq_iff groupStep_def Let_def)

lemma foldRow_groupRow:
  "\<forall>s\<in>set ss. classFormatOf s = k \<Longrightarrow>
   foldRow (\<lambda>s. newClassFormatData (classFormatOf s)) addSession ss =
     (if ss = [] then None else Some (groupRow k ss))"
  by (cases ss) (simp_all add: groupRow_def)

lemma grouped_Nil: "grouped [] = []"
  by (simp add: grouped_def)

lemma grouped_distinct: "distinct (map fst (grouped data))"
  by (simp only: grouped_groupFold groupFold_distinct)

lemma grouped_keys:
  "set (map fst (grouped data)) = classFormatOf ` {s \<in> set data. notHosted s}"
  by (simp add: grouped_groupFold groupFold_keys)

lemma grouped_row:
  assumes "(k, row) \<in> set (grouped data)"
  shows "\<not> isHosted k" and "row = groupRow k (filter (\<lambda>s. classFormatOf s = k) data)"
proof -
  from assms have "k \<in> set (map fst (grouped data))" by force
  then have k: "k \<in> classFormatOf ` {s \<in> set data. notHosted s}"
    by (simp only: grouped_keys)
  then show nh: "\<not> isHosted k" by auto
  then have f: "filter (\<lambda>x. notHosted x \<and> classFormatOf x = k) data
      = filter (\<lambda>s. classFormatOf s = k) data"
    by (auto intro!: filter_cong)
  from assms have "foldRow (\<lambda>s. newClassFormatData (classFormatOf s)) addSession
      (filter (\<lambda>s. classFormatOf s = k) data) = Some row"
    by (simp add: grouped_groupFold groupFold_entry f)
  then show "row = groupRow k (filter (\<lambda>s. classFormatOf s = k) data)"
    by (subst (asm) foldRow_groupRow [where k = k]) (simp_all split: if_splits)
qed

definition sessionsOfFormat :: "string \<Rightarrow> SessionData list \<Rightarrow> SessionData list" where
  "sessionsOfFormat k data = filter (\<lambda>s. classFormatOf s = k) data"

definition countedSessions :: "number \<Rightarrow> SessionData list \<Rightarrow> SessionData list" where
  "countedSessions minSessions data =
     filter (\<lambda>s. \<not> isHosted (classFormatOf s) \<and>
        js_ge (Fin (of_nat (length (sessionsOfFormat (classFormatOf s) data)))) minSessions) data"

definition emittedFormats :: "number \<Rightarrow> SessionData list \<Rightarrow> string list" where
  "emittedFormats minSessions data =
     filter (\<lambda>k. js_ge (Fin (of_nat (length (sessionsOfFormat k data)))) minSessions)
       (map fst (grouped data))"

lemma grouped_values:
  "object_values (grouped data) =
     map (\<lambda>k. groupRow k (sessionsOfFormat k data)) (map fst (grouped data))"
  unfolding object_values_def sessionsOfFormat_def
  by (auto simp: grouped_row(2))

lemma enrichedData_rows:
  "enrichedData minSessions data =
     map (\<lambda>k. enrich (groupRow k (sessionsOfFormat k data))) (emittedFormats minSessions data)"
  unfolding enrichedData_def emittedFormats_def grouped_values
  by (simp add: filter_map o_def groupRow_totalSessions)

lemma enrich_keeps:
  "classFormat (enrich r) = classFormat r"
  "ClassFormatData.sessions (enrich r) = ClassFormatData.sessions r"
  "ClassFormatData.totalSessions (enrich r) = ClassFormatData.totalSessions r"
  "ClassFormatData.emptySessions (enrich r) = ClassFormatData.emptySessions r"
  "ClassFormatData.totalCheckedIn (enrich r) = ClassFormatData.totalCheckedIn r"
  "ClassFormatData.totalRevenue (enrich r) = ClassFormatData.totalRevenue r"
  "ClassFormatData.totalCapacity (enrich r) = ClassFormatData.totalCapacity r"
  "ClassFormatData.totalBooked (enrich r) = ClassFormatData.totalBooked r"
  "ClassFormatData.totalLateCancelled (enrich r) = ClassFormatData.totalLateCancelled r"
  by (simp_all add: enrich_def Let_def)

lemma emittedFormats_distinct: "distinct (emittedFormats minSessions data)"
  unfolding emittedFormats_def by (simp add: grouped_distinct)

lemma emittedFormats_set:
  "set (emittedFormats minSessions data) =
     {k. \<not> isHosted k \<and> k \<in> classFormatOf ` set data \<and>
         js_ge (Fin (of_nat (length (sessionsOfFormat k data)))) minSessions}"
  unfolding emittedFormats_def using grouped_keys [of data] by auto

lemma counted_of_emitted:
  assumes "k \<in> set (emittedFormats minSessions data)"
  shows "filter (\<lambda>s. classFormatOf s = k) (countedSessions minSessions data)
           = sessionsOfFormat k data"
proof -
  from assms have "\<not> isHosted k"
    and "js_ge (Fin (of_nat (length (sessionsOfFormat k data)))) minSessions"
    by (simp_all add: emittedFormats_set)
  then show ?thesis
    unfolding countedSessions_def sessionsOfFormat_def
    by (auto intro!: filter_cong)
qed

lemma counted_keys:
  "\<forall>s\<in>set (countedSessions minSessions data).
     classFormatOf s \<in> set (emittedFormats minSessions data)"
  by (auto simp: countedSessions_def emittedFormats_set)

lemma sum_over_emitted:
  fixes g :: "SessionData \<Rightarrow> number"
  shows "(\<Sum>k\<leftarrow>emittedFormats minSessions data. \<Sum>s\<leftarrow>sessionsOfFormat k data. g s)
           = (\<Sum>s\<leftarrow>countedSessions minSessions data. g s)"
proof -
  have "(\<Sum>k\<leftarrow>emittedFormats minSessions data. \<Sum>s\<leftarrow>sessionsOfFormat k data. g s)
      = (\<Sum>k\<leftarrow>emittedFormats minSessions data.
           \<Sum>s\<leftarrow>filter (\<lambda>s. classFormatOf s = k) (countedSessions minSessions data). g s)"
    by (rule arg_cong [where f = sum_list], rule map_cong) (simp_all add: counted_of_emitted)
  also have "\<dots> = (\<Sum>s\<leftarrow>countedSessions minSessions data. g s)"
    by (rule sum_list_by_key [OF emittedFormats_distinct]) (rule counted_keys)
  finally show ?thesis .
qed

lemma applyViewFilter_default:
  "viewFilter \<notin> {''high-performing'', ''needs-attention'', ''revenue-generators''} \<Longrightarrow>
     applyViewFilter viewFilter rows = rows"
  by (simp add: applyViewFilter_def)

lemma processedData_default:
  assumes "viewFilter \<notin> {''high-performing'', ''needs-attention'', ''revenue-generators''}"
  shows "processedData minSessions viewFilter data =
     map (\<lambda>k. enrich (groupRow k (sessionsOfFormat k data))) (emittedFormats minSessions data)"
proof (cases "data = []")
  case True
  then show ?thesis by (simp add: processedData_def emittedFormats_def grouped_Nil)
next
  case False
  then show ?thesis
    by (simp add: processedData_def applyViewFilter_default [OF assms] enrichedData_rows)
qed

lemma grouped_filter: "grouped (filter notHosted data) = grouped data"
  by (simp only: grouped_groupFold groupFold_filter)

lemma processedData_filter:
  "processedData minSessions viewFilter (filter notHosted data) =
   processedData minSessions viewFilter data"
proof -
  have e: "enrichedData minSessions (filter notHosted data) = enrichedData minSessions data"
    by (simp add: enrichedData_def grouped_filter)
  have "enrichedData minSessions [] = []"
    by (simp add: enrichedData_def grouped_Nil object_values_def)
  then have n: "applyViewFilter viewFilter (enrichedData minSessions []) = []"
    by (simp add: applyViewFilter_def)
  show ?thesis
  proof (cases "filter notHosted data = []")
    case True
    with e n show ?thesis by (simp add: processedData_def)
  next
    case False
    then have "data \<noteq> []" by auto
    with False e show ?thesis by (simp add: processedData_def)
  qed
qed

lemma applyViewFilter_subset: "set (applyViewFilter viewFilter rows) \<subseteq> set rows"
  by (auto simp: applyViewFilter_def)

lemma processedData_row:
  assumes "row \<in> set (processedData minSessions viewFilter data)"
  obtains k where "k \<in> set (emittedFormats minSessions data)"
    and "row = enrich (groupRow k (sessionsOfFormat k data))"
proof -
  from assms have "row \<in> set (enrichedData minSessions data)"
    using applyViewFilter_subset by (auto simp: processedData_def split: if_splits)
  then show thesis using that by (auto simp: enrichedData_rows)
qed

lemma enrich_metrics:
  "ClassFormatData.avgClassSize (enrich r) = ratio (ClassFormatData.totalCheckedIn r) (ClassFormatData.totalSessions r)"
  "ClassFormatData.avgRevenue (enrich r) = ratio (ClassFormatData.totalRevenue r) (ClassFormatData.totalSessions r)"
  "ClassFormatData.fillRate (enrich r) = percent (ClassFormatData.totalCheckedIn r) (ClassFormatData.totalCapacity r)"
  "ClassFormatData.showUpRate (enrich r) = percent (ClassFormatData.totalCheckedIn r) (ClassFormatData.totalBooked r)"
  "ClassFormatData.utilizationRate (enrich r) =
     percent (js_sub (ClassFormatData.totalSessions r) (ClassFormatData.emptySessions r))
       (ClassFormatData.totalSessions r)"
  "ClassFormatData.cancellationRate (enrich r) = percent (ClassFormatData.totalLateCancelled r) (ClassFormatData.totalBooked r)"
  "ClassFormatData.revenuePerAttendee (enrich r) = ratio (ClassFormatData.totalRevenue r) (ClassFormatData.totalCheckedIn r)"
  "ClassFormatData.revenueEfficiency (enrich r) =
     percent (ClassFormatData.revenueGeneratingSessions r) (ClassFormatData.totalSessions r)"
  "ClassFormatData.emptySessionRate (enrich r) =
     percent (ClassFormatData.emptySessions r) (ClassFormatData.totalSessions r)"
  by (simp_all add: enrich_def Let_def ratio_def percent_def)

lemma enrich_revenueGenerating:
  "ClassFormatData.revenueGeneratingSessions (enrich r) = ClassFormatData.revenueGeneratingSessions r"
  by (simp add: enrich_def Let_def)

lemma sessionsOfFormat_subset: "set (sessionsOfFormat k data) \<subseteq> set data"
  by (auto simp: sessionsOfFormat_def)

section \<open>Properties of the month-on-month table\<close>

definition dimensionKey :: "string \<Rightarrow> SessionData \<Rightarrow> string" where
  "dimensionKey activeTrendView session = fst (dimensionOf activeTrendView session)"

lemma trendMap_groupFold:
  "trendMap monthKeyOf view data =
     groupFold (\<lambda>_. True) (dimensionKey view)
       (\<lambda>s. newMonthlyTrend (sortedMonths monthKeyOf data) (dimensionOf view s))
       (trendAddSession monthKeyOf) data"
  unfolding trendMap_def groupFold_def
  by (rule arg_cong [where f = "\<lambda>f. foldl f [] data"])
     (simp add: fun_eq_iff trendStep_def Let_def dimensionKey_def)

lemma trendAdd_foldl:
  "MonthlyTrendData.dimension (foldl (\<lambda>v y. trendAddSession mk y v) v0 ys) =
     MonthlyTrendData.dimension v0"
  "MonthlyTrendData.type (foldl (\<lambda>v y. trendAddSession mk y v) v0 ys) = MonthlyTrendData.type v0"
  "TrendValues.sessions (totalValues (foldl (\<lambda>v y. trendAddSession mk y v) v0 ys)) =
     TrendValues.sessions (totalValues v0) + Fin (of_nat (length ys))"
  by (induction ys arbitrary: v0; simp add: trendAddSession_def countSession_def add.assoc)+

lemma trendMap_entry:
  assumes "(k, v) \<in> set (trendMap mk view data)"
  shows "MonthlyTrendData.dimension v = k"
    and "TrendValues.sessions (totalValues v) =
           Fin (of_nat (length (filter (\<lambda>s. dimensionKey view s = k) data)))"
    and "k \<in> dimensionKey view ` set data"
proof -
  let ?init = "\<lambda>s. newMonthlyTrend (sortedMonths mk data) (dimensionOf view s)"
  let ?ss = "filter (\<lambda>s. dimensionKey view s = k) data"
  from assms have fr: "foldRow ?init (trendAddSession mk) ?ss = Some v"
    by (simp add: trendMap_groupFold groupFold_entry)
  then obtain x xs where ss: "?ss = x # xs"
    and v: "v = foldl (\<lambda>v y. trendAddSession mk y v) (?init x) (x # xs)"
    by (cases ?ss) auto
  from ss have "x \<in> set ?ss" by simp
  then have kx: "dimensionKey view x = k" and xd: "x \<in> set data" by simp_all
  from v kx show "MonthlyTrendData.dimension v = k"
    by (simp only: trendAdd_foldl) (simp add: newMonthlyTrend_def dimensionKey_def)
  from v show "TrendValues.sessions (totalValues v) = Fin (of_nat (length ?ss))"
    by (simp only: trendAdd_foldl ss) (simp add: newMonthlyTrend_def zeroValues_def)
  from kx xd show "k \<in> dimensionKey view ` set data" by auto
qed

lemma trendMap_entry_type:
  assumes "(k, v) \<in> set (trendMap mk view data)"
  shows "\<exists>x\<in>set data. dimensionOf view x = (k, MonthlyTrendData.type v)"
proof -
  let ?init = "\<lambda>s. newMonthlyTrend (sortedMonths mk data) (dimensionOf view s)"
  let ?ss = "filter (\<lambda>s. dimensionKey view s = k) data"
  from assms have fr: "foldRow ?init (trendAddSession mk) ?ss = Some v"
    by (simp add: trendMap_groupFold groupFold_entry)
  then obtain x xs where ss: "?ss = x # xs"
    and v: "v = foldl (\<lambda>v y. trendAddSession mk y v) (?init x) (x # xs)"
    by (cases ?ss) auto
  from ss have "x \<in> set ?ss" by simp
  then have kx: "dimensionKey view x = k" and xd: "x \<in> set data" by simp_all
  from v have "MonthlyTrendData.type v = snd (dimensionOf view x)"
    by (simp only: trendAdd_foldl) (simp add: newMonthlyTrend_def)
  with kx have "dimensionOf view x = (k, MonthlyTrendData.type v)"
    by (simp add: dimensionKey_def prod_eq_iff)
  with xd show ?thesis by blast
qed

lemma trendMap_keys: "fst ` set (trendMap mk view data) = dimensionKey view ` set data"
  by (simp add: trendMap_groupFold groupFold_keys)

lemma deriveTrend_keeps:
  "MonthlyTrendData.dimension (deriveTrend months t) = MonthlyTrendData.dimension t"
  "MonthlyTrendData.type (deriveTrend months t) = MonthlyTrendData.type t"
  "TrendValues.sessions (totalValues (deriveTrend months t)) = TrendValues.sessions (totalValues t)"
  by (simp_all add: deriveTrend_def Let_def)

lemma trendProcessedData_rows:
  "row \<in> set (trendProcessedData mk view minSessions data) \<longleftrightarrow>
     (\<exists>k v. (k, v) \<in> set (trendMap mk view data) \<and>
            row = deriveTrend (sortedMonths mk data) v \<and>
            js_ge (TrendValues.sessions (totalValues v)) minSessions)"
proof (cases "data = []")
  case True
  then show ?thesis by (simp add: trendProcessedData_def trendMap_def)
next
  case False
  then have "row \<in> set (trendProcessedData mk view minSessions data) \<longleftrightarrow>
      (\<exists>e\<in>set (trendMap mk view data). row = deriveTrend (sortedMonths mk data) (snd e) \<and>
         js_ge (TrendValues.sessions (totalValues (snd e))) minSessions)"
    by (auto simp: trendProcessedData_def object_values_def deriveTrend_keeps)
  also have "\<dots> \<longleftrightarrow> (\<exists>k v. (k, v) \<in> set (trendMap mk view data) \<and>
            row = deriveTrend (sortedMonths mk data) v \<and>
            js_ge (TrendValues.sessions (totalValues v)) minSessions)"
    by (simp add: Bex_def)
  finally show ?thesis .
qed

lemma trend_threshold:
  "set (map MonthlyTrendData.dimension (trendProcessedData mk view minSessions data)) =
     {k. k \<in> dimensionKey view ` set data \<and>
         js_ge (Fin (of_nat (length (filter (\<lambda>s. dimensionKey view s = k) data)))) minSessions}"
  (is "?L = ?R")
proof (rule set_eqI)
  fix k
  show "k \<in> ?L \<longleftrightarrow> k \<in> ?R"
  proof
    assume "k \<in> ?L"
    then obtain row where r: "row \<in> set (trendProcessedData mk view minSessions data)"
      and d: "MonthlyTrendData.dimension row = k" by auto
    from r obtain k' v where e: "(k', v) \<in> set (trendMap mk view data)"
      and row: "row = deriveTrend (sortedMonths mk data) v"
      and ge: "js_ge (TrendValues.sessions (totalValues v)) minSessions"
      by (auto simp: trendProcessedData_rows)
    from d row have "k' = k" using trendMap_entry(1) [OF e] by (simp add: deriveTrend_keeps)
    with e ge show "k \<in> ?R"
      using trendMap_entry(2,3) [OF e] by simp
  next
    assume "k \<in> ?R"
    then have k: "k \<in> dimensionKey view ` set data"
      and ge: "js_ge (Fin (of_nat (length (filter (\<lambda>s. dimensionKey view s = k) data)))) minSessions"
      by simp_all
    from k have "k \<in> fst ` set (trendMap mk view data)" by (simp only: trendMap_keys)
    then obtain v where e: "(k, v) \<in> set (trendMap mk view data)" by force
    let ?row = "deriveTrend (sortedMonths mk data) v"
    from ge have "js_ge (TrendValues.sessions (totalValues v)) minSessions"
      using trendMap_entry(2) [OF e] by simp
    with e have "?row \<in> set (trendProcessedData mk view minSessions data)"
      unfolding trendProcessedData_rows by blast
    moreover have "MonthlyTrendData.dimension ?row = k"
      using trendMap_entry(1) [OF e] by (simp add: deriveTrend_keeps)
    ultimately show "k \<in> ?L" by force
  qed
qed

lemma trend_row_sessions:
  assumes "row \<in> set (trendProcessedData mk view minSessions data)"
  shows "TrendValues.sessions (totalValues row) =
     Fin (of_nat (length (filter (\<lambda>s. dimensionKey view s = MonthlyTrendData.dimension row) data)))"
proof -
  from assms obtain k v where e: "(k, v) \<in> set (trendMap mk view data)"
    and row: "row = deriveTrend (sortedMonths mk data) v"
    by (auto simp: trendProcessedData_rows)
  show ?thesis
    using trendMap_entry(1,2) [OF e] by (simp add: row deriveTrend_keeps)
qed

section \<open>Properties of the multi-metric trends table\<close>

lemma multiTrendMap_groupFold:
  "multiTrendMap mk view data =
     groupFold (\<lambda>_. True) (dimensionKey view) (\<lambda>s. newTrendData (dimensionOf view s))
       (multiAddSession mk) data"
  unfolding multiTrendMap_def groupFold_def
  by (rule arg_cong [where f = "\<lambda>f. foldl f [] data"])
     (simp add: fun_eq_iff multiStep_def Let_def dimensionKey_def)

definition monthKeyOfSession :: "(string \<Rightarrow> string) \<Rightarrow> SessionData \<Rightarrow> string" where
  "monthKeyOfSession mk s = mk (date s)"

lemma multiAdd_foldl:
  "TrendData.dimension (foldl (\<lambda>v y. multiAddSession mk y v) v0 ys) = TrendData.dimension v0"
  "TrendData.type (foldl (\<lambda>v y. multiAddSession mk y v) v0 ys) = TrendData.type v0"
  "momSessionsChange (foldl (\<lambda>v y. multiAddSession mk y v) v0 ys) = momSessionsChange v0"
  "momAttendanceChange (foldl (\<lambda>v y. multiAddSession mk y v) v0 ys) = momAttendanceChange v0"
  "momRevenueChange (foldl (\<lambda>v y. multiAddSession mk y v) v0 ys) = momRevenueChange v0"
  "TrendData.totalSessions (foldl (\<lambda>v y. multiAddSession mk y v) v0 ys) =
     TrendData.totalSessions v0 + Fin (of_nat (length ys))"
  by (induction ys arbitrary: v0; simp add: multiAddSession_def add.assoc)+

lemma multiAdd_breakdown:
  "monthlyBreakdown (foldl (\<lambda>v y. multiAddSession mk y v) v0 ys) =
     foldl (\<lambda>acc s. upsert (monthKeyOfSession mk s) newMonthBreakdown (breakdownAddSession s) acc)
       (monthlyBreakdown v0) ys"
  by (induction ys arbitrary: v0) (simp_all add: multiAddSession_def monthKeyOfSession_def)

lemma breakdown_groupFold:
  "foldl (\<lambda>acc s. upsert (monthKeyOfSession mk s) newMonthBreakdown (breakdownAddSession s) acc) [] ys =
     groupFold (\<lambda>_. True) (monthKeyOfSession mk) (\<lambda>_. newMonthBreakdown) breakdownAddSession ys"
  by (simp add: groupFold_def)

lemma multiTrendMap_entry:
  assumes "(k, v) \<in> set (multiTrendMap mk view data)"
  shows "TrendData.dimension v = k"
    and "monthlyBreakdown v =
           groupFold (\<lambda>_. True) (monthKeyOfSession mk) (\<lambda>_. newMonthBreakdown) breakdownAddSession
             (filter (\<lambda>s. dimensionKey view s = k) data)"
    and "momSessionsChange v = Fin 0" and "momAttendanceChange v = Fin 0"
    and "momRevenueChange v = Fin 0"
proof -
  let ?ss = "filter (\<lambda>s. dimensionKey view s = k) data"
  from assms have "foldRow (\<lambda>s. newTrendData (dimensionOf view s)) (multiAddSession mk) ?ss = Some v"
    by (simp add: multiTrendMap_groupFold groupFold_entry)
  then obtain x xs where ss: "?ss = x # xs"
    and v: "v = foldl (\<lambda>v y. multiAddSession mk y v) (newTrendData (dimensionOf view x)) (x # xs)"
    by (cases ?ss) auto
  from ss have "x \<in> set ?ss" by simp
  then have kx: "dimensionKey view x = k" by simp
  from v kx show "TrendData.dimension v = k"
    by (simp only: multiAdd_foldl) (simp add: newTrendData_def dimensionKey_def)
  from v show "monthlyBreakdown v =
      groupFold (\<lambda>_. True) (monthKeyOfSession mk) (\<lambda>_. newMonthBreakdown) breakdownAddSession ?ss"
    by (simp only: multiAdd_breakdown ss [symmetric]) (simp add: newTrendData_def breakdown_groupFold)
  from v show "momSessionsChange v = Fin 0" "momAttendanceChange v = Fin 0"
    "momRevenueChange v = Fin 0"
    by (simp_all only: multiAdd_foldl) (simp_all add: newTrendData_def)
qed

lemma breakdownAdd_foldl:
  "MonthBreakdown.sessions (foldl (\<lambda>v y. breakdownAddSession y v) v0 ys) =
     MonthBreakdown.sessions v0 + Fin (of_nat (length ys))"
  "MonthBreakdown.attendance (foldl (\<lambda>v y. breakdownAddSession y v) v0 ys) =
     MonthBreakdown.attendance v0 + (\<Sum>s\<leftarrow>ys. orZero (checkedInCount s))"
  "MonthBreakdown.revenue (foldl (\<lambda>v y. breakdownAddSession y v) v0 ys) =
     MonthBreakdown.revenue v0 + (\<Sum>s\<leftarrow>ys. orZero (SessionData.totalPaid s))"
  by (induction ys arbitrary: v0; simp add: breakdownAddSession_def Let_def add.assoc)+

definition periodSessions ::
  "(string \<Rightarrow> string) \<Rightarrow> string \<Rightarrow> string \<Rightarrow> string \<Rightarrow> SessionData list \<Rightarrow> SessionData list" where
  "periodSessions monthKeyOf activeTrendView k m data =
     filter (\<lambda>s. dimensionKey activeTrendView s = k \<and> monthKeyOf (date s) = m) data"

definition periodsOf ::
  "(string \<Rightarrow> string) \<Rightarrow> string \<Rightarrow> string \<Rightarrow> SessionData list \<Rightarrow> string list" where
  "periodsOf monthKeyOf activeTrendView k data =
     sort (remdups (map (\<lambda>s. monthKeyOf (date s))
                      (filter (\<lambda>s. dimensionKey activeTrendView s = k) data)))"

definition latestPeriod ::
  "(string \<Rightarrow> string) \<Rightarrow> string \<Rightarrow> string \<Rightarrow> SessionData list \<Rightarrow> string" where
  "latestPeriod monthKeyOf activeTrendView k data =
     periodsOf monthKeyOf activeTrendView k data !
       (length (periodsOf monthKeyOf activeTrendView k data) - 1)"

definition previousPeriod ::
  "(string \<Rightarrow> string) \<Rightarrow> string \<Rightarrow> string \<Rightarrow> SessionData list \<Rightarrow> string" where
  "previousPeriod monthKeyOf activeTrendView k data =
     periodsOf monthKeyOf activeTrendView k data !
       (length (periodsOf monthKeyOf activeTrendView k data) - 2)"

lemma breakdown_bucket:
  assumes "(k, v) \<in> set (multiTrendMap mk view data)"
    and "map_of (monthlyBreakdown v) m = Some b"
  shows "MonthBreakdown.sessions b = Fin (of_nat (length (periodSessions mk view k m data)))"
    and "MonthBreakdown.attendance b = (\<Sum>s\<leftarrow>periodSessions mk view k m data. orZero (checkedInCount s))"
    and "MonthBreakdown.revenue b =
           (\<Sum>s\<leftarrow>periodSessions mk view k m data. orZero (SessionData.totalPaid s))"
proof -
  let ?ss = "filter (\<lambda>s. dimensionKey view s = k) data"
  let ?ms = "filter (\<lambda>s. True \<and> monthKeyOfSession mk s = m) ?ss"
  have ms: "?ms = periodSessions mk view k m data"
    by (simp add: periodSessions_def monthKeyOfSession_def conj_commute)
  from assms have "foldRow (\<lambda>_. newMonthBreakdown) breakdownAddSession ?ms = Some b"
    by (simp only: multiTrendMap_entry(2) [OF assms(1)] groupFold_map_of)
  then obtain x xs where xs: "?ms = x # xs"
    and b: "b = foldl (\<lambda>v y. breakdownAddSession y v) newMonthBreakdown (x # xs)"
    by (cases ?ms) auto
  from b show "MonthBreakdown.sessions b = Fin (of_nat (length (periodSessions mk view k m data)))"
    "MonthBreakdown.attendance b = (\<Sum>s\<leftarrow>periodSessions mk view k m data. orZero (checkedInCount s))"
    "MonthBreakdown.revenue b =
           (\<Sum>s\<leftarrow>periodSessions mk view k m data. orZero (SessionData.totalPaid s))"
    by (simp_all only: breakdownAdd_foldl xs [symmetric] ms) (simp_all add: newMonthBreakdown_def)
qed

lemma breakdown_months:
  assumes "(k, v) \<in> set (multiTrendMap mk view data)"
  shows "sort (map fst (monthlyBreakdown v)) = periodsOf mk view k data"
proof -
  let ?ss = "filter (\<lambda>s. dimensionKey view s = k) data"
  let ?g = "groupFold (\<lambda>_. True) (monthKeyOfSession mk) (\<lambda>_. newMonthBreakdown) breakdownAddSession ?ss"
  have mb: "monthlyBreakdown v = ?g" by (rule multiTrendMap_entry(2) [OF assms])
  have d: "distinct (map fst ?g)" by (rule groupFold_distinct)
  have "set (map fst ?g) = set (map (\<lambda>s. mk (date s)) ?ss)"
    using groupFold_keys [of "\<lambda>_. True" "monthKeyOfSession mk" "\<lambda>_. newMonthBreakdown"
        breakdownAddSession ?ss]
    by (simp add: monthKeyOfSession_def image_def)
  then have "set (sort (map fst ?g)) = set (sort (remdups (map (\<lambda>s. mk (date s)) ?ss)))"
    by simp
  moreover have "distinct (sort (map fst ?g))" using d by simp
  moreover have "distinct (sort (remdups (map (\<lambda>s. mk (date s)) ?ss)))" by simp
  ultimately have "sort (map fst ?g) = sort (remdups (map (\<lambda>s. mk (date s)) ?ss))"
    by (intro sorted_distinct_set_unique) simp_all
  then show ?thesis by (simp add: mb periodsOf_def)
qed

lemma momChanges_keeps: "monthlyBreakdown (momChanges t) = monthlyBreakdown t"
  "TrendData.dimension (momChanges t) = TrendData.dimension t"
  by (simp_all add: momChanges_def Let_def split: option.splits)

lemma momChanges_short:
  assumes "length (sort (map fst (monthlyBreakdown t))) < 2"
  shows "momChanges t = t"
  using assms by (simp add: momChanges_def Let_def)

lemma momChanges_delta:
  assumes "2 \<le> length (monthlyBreakdown t)"
  shows "\<exists>latest previous.
     map_of (monthlyBreakdown t) (sort (map fst (monthlyBreakdown t)) ! (length (monthlyBreakdown t) - 1))
       = Some latest \<and>
     map_of (monthlyBreakdown t) (sort (map fst (monthlyBreakdown t)) ! (length (monthlyBreakdown t) - 2))
       = Some previous \<and>
     momSessionsChange (momChanges t) =
       delta (MonthBreakdown.sessions previous) (MonthBreakdown.sessions latest) \<and>
     momAttendanceChange (momChanges t) =
       delta (MonthBreakdown.attendance previous) (MonthBreakdown.attendance latest) \<and>
     momRevenueChange (momChanges t) =
       delta (MonthBreakdown.revenue previous) (MonthBreakdown.revenue latest)"
proof -
  let ?mb = "monthlyBreakdown t"
  let ?months = "sort (map fst ?mb)"
  have len: "length ?months = length ?mb" by simp
  have i: "length ?mb - 1 < length ?months" "length ?mb - 2 < length ?months"
    using assms by simp_all
  have "?months ! (length ?mb - 1) \<in> set ?months" "?months ! (length ?mb - 2) \<in> set ?months"
    by (rule nth_mem [OF i(1)], rule nth_mem [OF i(2)])
  then have "?months ! (length ?mb - 1) \<in> fst ` set ?mb" "?months ! (length ?mb - 2) \<in> fst ` set ?mb"
    by simp_all
  then obtain latest previous where l: "map_of ?mb (?months ! (length ?mb - 1)) = Some latest"
    and p: "map_of ?mb (?months ! (length ?mb - 2)) = Some previous"
    by (meson map_of_eq_None_iff not_Some_eq)
  show ?thesis
    using assms l p by (simp add: momChanges_def Let_def delta_def)
qed

lemma multiDerive_keeps:
  "monthlyBreakdown (multiDerive n t) = monthlyBreakdown t"
  "TrendData.dimension (multiDerive n t) = TrendData.dimension t"
  by (simp_all add: multiDerive_def momChanges_keeps)

lemma processedTrendData_rows:
  "row \<in> set (processedTrendData mk view data) \<longleftrightarrow>
     (\<exists>k v. (k, v) \<in> set (multiTrendMap mk view data) \<and>
            row = multiDerive (length (sortedMonths mk data)) v)"
proof (cases "data = []")
  case True
  then show ?thesis by (simp add: processedTrendData_def multiTrendMap_def)
next
  case False
  then have "row \<in> set (processedTrendData mk view data) \<longleftrightarrow>
      (\<exists>e\<in>set (multiTrendMap mk view data). row = multiDerive (length (sortedMonths mk data)) (snd e))"
    by (auto simp: processedTrendData_def object_values_def)
  also have "\<dots> \<longleftrightarrow> (\<exists>k v. (k, v) \<in> set (multiTrendMap mk view data) \<and>
            row = multiDerive (length (sortedMonths mk data)) v)"
    by (simp add: Bex_def)
  finally show ?thesis .
qed

lemma multi_row_short:
  assumes "(k, v) \<in> set (multiTrendMap mk view data)"
    and "length (monthlyBreakdown v) < 2"
  shows "momSessionsChange (multiDerive n v) = Fin 0"
    and "momAttendanceChange (multiDerive n v) = Fin 0"
    and "momRevenueChange (multiDerive n v) = Fin 0"
  using assms(2) multiTrendMap_entry(3-5) [OF assms(1)]
  by (simp_all add: multiDerive_def momChanges_short)

lemma multi_row_delta:
  assumes "2 \<le> length (monthlyBreakdown v)"
  shows "\<exists>latest previous.
     map_of (monthlyBreakdown v) (sort (map fst (monthlyBreakdown v)) ! (length (monthlyBreakdown v) - 1))
       = Some latest \<and>
     map_of (monthlyBreakdown v) (sort (map fst (monthlyBreakdown v)) ! (length (monthlyBreakdown v) - 2))
       = Some previous \<and>
     momSessionsChange (multiDerive n v) =
       delta (MonthBreakdown.sessions previous) (MonthBreakdown.sessions latest) \<and>
     momAttendanceChange (multiDerive n v) =
       delta (MonthBreakdown.attendance previous) (MonthBreakdown.attendance latest) \<and>
     momRevenueChange (multiDerive n v) =
       delta (MonthBreakdown.revenue previous) (MonthBreakdown.revenue latest)"
proof -
  let ?t = "v \<lparr> avgFillRate :=
            (if js_gt (TrendData.totalSessions v) (Fin 0)
             then js_mul (js_div (totalAttendance v)
                            (js_mul (TrendData.totalSessions v) (Fin 15))) (Fin 100)
             else Fin 0),
          avgUtilization :=
            (if js_gt (TrendData.totalSessions v) (Fin 0)
             then js_mul
                    (js_div
                       (Fin (of_nat (length (filter (\<lambda>m. js_gt (MonthBreakdown.sessions m) (Fin 0))
                                              (object_values (monthlyBreakdown v))))))
                       (Fin (of_nat n)))
                    (Fin 100)
             else Fin 0) \<rparr>"
  have mb: "monthlyBreakdown ?t = monthlyBreakdown v" by simp
  have d: "multiDerive n v = momChanges ?t" by (simp add: multiDerive_def)
  from assms have "2 \<le> length (monthlyBreakdown ?t)" by simp
  from momChanges_delta [OF this] show ?thesis
    unfolding d mb .
qed

lemma multi_compares_latest:
  assumes "row \<in> set (processedTrendData mk view data)"
  shows "(length (periodsOf mk view (TrendData.dimension row) data) < 2 \<longrightarrow>
            momSessionsChange row = Fin 0 \<and> momAttendanceChange row = Fin 0 \<and>
            momRevenueChange row = Fin 0) \<and>
         (2 \<le> length (periodsOf mk view (TrendData.dimension row) data) \<longrightarrow>
            momSessionsChange row =
              delta (Fin (of_nat (length (periodSessions mk view (TrendData.dimension row)
                       (previousPeriod mk view (TrendData.dimension row) data) data))))
                    (Fin (of_nat (length (periodSessions mk view (TrendData.dimension row)
                       (latestPeriod mk view (TrendData.dimension row) data) data)))) \<and>
            momAttendanceChange row =
              delta (\<Sum>s\<leftarrow>periodSessions mk view (TrendData.dimension row)
                       (previousPeriod mk view (TrendData.dimension row) data) data.
                       orZero (checkedInCount s))
                    (\<Sum>s\<leftarrow>periodSessions mk view (TrendData.dimension row)
                       (latestPeriod mk view (TrendData.dimension row) data) data.
                       orZero (checkedInCount s)) \<and>
            momRevenueChange row =
              delta (\<Sum>s\<leftarrow>periodSessions mk view (TrendData.dimension row)
                       (previousPeriod mk view (TrendData.dimension row) data) data.
                       orZero (SessionData.totalPaid s))
                    (\<Sum>s\<leftarrow>periodSessions mk view (TrendData.dimension row)
                       (latestPeriod mk view (TrendData.dimension row) data) data.
                       orZero (SessionData.totalPaid s)))"
proof -
  from assms obtain k v where e: "(k, v) \<in> set (multiTrendMap mk view data)"
    and row: "row = multiDerive (length (sortedMonths mk data)) v"
    by (auto simp: processedTrendData_rows)
  have k: "TrendData.dimension row = k"
    by (simp add: row multiDerive_keeps multiTrendMap_entry(1) [OF e])
  let ?ps = "periodsOf mk view k data"
  have months: "sort (map fst (monthlyBreakdown v)) = ?ps"
    by (rule breakdown_months [OF e])
  have "length (sort (map fst (monthlyBreakdown v))) = length ?ps"
    by (simp only: months)
  then have len: "length (monthlyBreakdown v) = length ?ps"
    by simp
  show ?thesis
  proof (cases "2 \<le> length ?ps")
    case False
    then have "length (monthlyBreakdown v) < 2" by (simp add: len)
    from multi_row_short [OF e this, of "length (sortedMonths mk data)"] False show ?thesis
      unfolding k by (simp add: row)
  next
    case True
    then have "2 \<le> length (monthlyBreakdown v)" by (simp add: len)
    from multi_row_delta [OF this, of "length (sortedMonths mk data)"]
    obtain latest previous where
      l: "map_of (monthlyBreakdown v) (?ps ! (length ?ps - 1)) = Some latest"
      and p: "map_of (monthlyBreakdown v) (?ps ! (length ?ps - 2)) = Some previous"
      and d: "momSessionsChange row =
          delta (MonthBreakdown.sessions previous) (MonthBreakdown.sessions latest)"
        "momAttendanceChange row =
          delta (MonthBreakdown.attendance previous) (MonthBreakdown.attendance latest)"
        "momRevenueChange row =
          delta (MonthBreakdown.revenue previous) (MonthBreakdown.revenue latest)"
      unfolding months len row by blast
    from True d show ?thesis
      unfolding k latestPeriod_def previousPeriod_def
      by (simp only: breakdown_bucket [OF e l] breakdown_bucket [OF e p]) simp
  qed
qed

section \<open>Properties of the year-on-year table\<close>

definition yoyKey :: "YearOnYearComparison \<Rightarrow> string" where
  "yoyKey row = YearOnYearComparison.trainerName row @ ''-'' @ YearOnYearComparison.location row"

definition trainerRecords :: "string \<Rightarrow> ProcessedTrainerData list \<Rightarrow> ProcessedTrainerData list" where
  "trainerRecords k data = filter (\<lambda>t. trainerKey t = k) data"

definition yearsOf :: "string \<Rightarrow> ProcessedTrainerData list \<Rightarrow> string list" where
  "yearsOf k data = sort (remdups (map yearOf (trainerRecords k data)))"

definition yearRecords ::
  "string \<Rightarrow> string \<Rightarrow> ProcessedTrainerData list \<Rightarrow> ProcessedTrainerData list" where
  "yearRecords k y data = filter (\<lambda>t. yearOf t = y) (trainerRecords k data)"

lemma trainerMap_groupFold:
  "trainerMap data = groupFold (\<lambda>_. True) trainerKey newTrainerYears addTrainerYear data"
  unfolding trainerMap_def groupFold_def
  by (rule arg_cong [where f = "\<lambda>f. foldl f [] data"]) (simp add: fun_eq_iff trainerStep_def)

lemma addTrainerYear_foldl:
  "TrainerYears.trainerName (foldl (\<lambda>v y. addTrainerYear y v) v0 ys) = TrainerYears.trainerName v0"
  "TrainerYears.location (foldl (\<lambda>v y. addTrainerYear y v) v0 ys) = TrainerYears.location v0"
  "years (foldl (\<lambda>v y. addTrainerYear y v) v0 ys) =
     foldl (\<lambda>acc t. upsert (yearOf t) [] (\<lambda>l. l @ [t]) acc) (years v0) ys"
  by (induction ys arbitrary: v0; simp add: addTrainerYear_def)+

lemma foldl_snoc_all: "foldl (\<lambda>l y. l @ [y]) acc ys = acc @ ys"
  by (induction ys arbitrary: acc) simp_all

lemma foldRow_append: "foldRow (\<lambda>_. []) (\<lambda>t l. l @ [t]) ys = (if ys = [] then None else Some ys)"
  by (cases ys) (simp_all add: foldl_snoc_all)

lemma trainerMap_entry:
  assumes "(k, v) \<in> set (trainerMap data)"
  shows "TrainerYears.trainerName v @ ''-'' @ TrainerYears.location v = k"
    and "years v = groupFold (\<lambda>_. True) yearOf (\<lambda>_. []) (\<lambda>t l. l @ [t]) (trainerRecords k data)"
proof -
  let ?ss = "filter (\<lambda>t. True \<and> trainerKey t = k) data"
  from assms have "foldRow newTrainerYears addTrainerYear ?ss = Some v"
    by (simp add: trainerMap_groupFold groupFold_entry)
  then obtain x xs where ss: "?ss = x # xs"
    and v: "v = foldl (\<lambda>v y. addTrainerYear y v) (newTrainerYears x) (x # xs)"
    by (cases ?ss) auto
  from ss have "x \<in> set ?ss" by simp
  then have kx: "trainerKey x = k" by simp
  from v kx show "TrainerYears.trainerName v @ ''-'' @ TrainerYears.location v = k"
    by (simp only: addTrainerYear_foldl) (simp add: newTrainerYears_def trainerKey_def)
  have "?ss = trainerRecords k data" by (simp add: trainerRecords_def)
  with v ss show "years v =
      groupFold (\<lambda>_. True) yearOf (\<lambda>_. []) (\<lambda>t l. l @ [t]) (trainerRecords k data)"
    by (simp only: addTrainerYear_foldl) (simp add: newTrainerYears_def groupFold_def)
qed

lemma years_lookup:
  assumes "(k, v) \<in> set (trainerMap data)"
  shows "map_of (years v) y =
     (if yearRecords k y data = [] then None else Some (yearRecords k y data))"
  by (simp add: trainerMap_entry(2) [OF assms] groupFold_map_of foldRow_append yearRecords_def)

lemma years_sorted:
  assumes "(k, v) \<in> set (trainerMap data)"
  shows "sort (map fst (years v)) = yearsOf k data"
proof -
  let ?g = "groupFold (\<lambda>_. True) yearOf (\<lambda>_. []) (\<lambda>t l. l @ [t]) (trainerRecords k data)"
  have y: "years v = ?g" by (rule trainerMap_entry(2) [OF assms])
  have "set (map fst ?g) = set (map yearOf (trainerRecords k data))"
    using groupFold_keys [of "\<lambda>_. True" yearOf "\<lambda>_. []" "\<lambda>t l. l @ [t]" "trainerRecords k data"]
    by (simp add: image_def)
  then have "set (sort (map fst ?g)) = set (sort (remdups (map yearOf (trainerRecords k data))))"
    by simp
  moreover have "distinct (sort (map fst ?g))" using groupFold_distinct [of "\<lambda>_. True" yearOf] by simp
  moreover have "distinct (sort (remdups (map yearOf (trainerRecords k data))))" by simp
  ultimately have "sort (map fst ?g) = sort (remdups (map yearOf (trainerRecords k data)))"
    by (intro sorted_distinct_set_unique) simp_all
  then show ?thesis by (simp add: y yearsOf_def)
qed

lemma yearTotals_revenue:
  "YearTotals.revenue (yearTotals l) = (\<Sum>t\<leftarrow>l. ProcessedTrainerData.totalPaid t)"
proof -
  have "YearTotals.revenue (foldl addYearTotals acc l) =
      YearTotals.revenue acc + (\<Sum>t\<leftarrow>l. ProcessedTrainerData.totalPaid t)" for acc
    by (induction l arbitrary: acc) (simp_all add: addYearTotals_def add.assoc)
  then show ?thesis by (simp add: yearTotals_def)
qed

lemma yearRecords_nonempty:
  assumes "i < length (yearsOf k data)"
  shows "yearRecords k (yearsOf k data ! i) data \<noteq> []"
proof -
  from assms have "yearsOf k data ! i \<in> set (yearsOf k data)" by (rule nth_mem)
  then have "yearsOf k data ! i \<in> yearOf ` set (trainerRecords k data)"
    by (simp add: yearsOf_def)
  then show ?thesis
    by (auto simp: yearRecords_def filter_empty_conv)
qed

lemma compareYears_short:
  assumes "(k, v) \<in> set (trainerMap data)" and "length (yearsOf k data) < 2"
  shows "compareYears v = []"
  using assms(2) by (simp add: compareYears_def years_sorted [OF assms(1)] Let_def)

lemma compareYears_row:
  assumes e: "(k, v) \<in> set (trainerMap data)" and n: "2 \<le> length (yearsOf k data)"
  shows "\<exists>row. compareYears v = [row] \<and> yoyKey row = k \<and>
     currentYear row =
       yearTotals (yearRecords k (yearsOf k data ! (length (yearsOf k data) - 1)) data) \<and>
     previousYear row =
       yearTotals (yearRecords k (yearsOf k data ! (length (yearsOf k data) - 2)) data) \<and>
     revenueGrowth row =
       delta (YearTotals.revenue (previousYear row)) (YearTotals.revenue (currentYear row))"
proof -
  let ?ys = "yearsOf k data"
  from n have i: "length ?ys - 1 < length ?ys" "length ?ys - 2 < length ?ys" by simp_all
  have c: "map_of (years v) (?ys ! (length ?ys - 1)) =
      Some (yearRecords k (?ys ! (length ?ys - 1)) data)"
    using yearRecords_nonempty [OF i(1)] by (simp add: years_lookup [OF e])
  have p: "map_of (years v) (?ys ! (length ?ys - 2)) =
      Some (yearRecords k (?ys ! (length ?ys - 2)) data)"
    using yearRecords_nonempty [OF i(2)] by (simp add: years_lookup [OF e])
  show ?thesis
    using n c p trainerMap_entry(1) [OF e]
    by (simp add: compareYears_def years_sorted [OF e] Let_def yoyKey_def delta_def)
qed

lemma concat_map_if:
  "concat (map (\<lambda>x. if P x then [f x] else []) xs) = map f (filter P xs)"
  by (induction xs) simp_all

lemma yearOnYear_keys:
  "map yoyKey (yearOnYearData data) =
     filter (\<lambda>k. 2 \<le> length (yearsOf k data)) (map fst (trainerMap data))"
proof -
  have "map yoyKey (compareYears (snd e)) =
      (if 2 \<le> length (yearsOf (fst e) data) then [fst e] else [])"
    if "e \<in> set (trainerMap data)" for e
  proof (cases "2 \<le> length (yearsOf (fst e) data)")
    case True
    from that have "(fst e, snd e) \<in> set (trainerMap data)" by simp
    from compareYears_row [OF this True] True show ?thesis by auto
  next
    case False
    from that have "(fst e, snd e) \<in> set (trainerMap data)" by simp
    from compareYears_short [OF this] False show ?thesis by simp
  qed
  then have m: "map (\<lambda>e. map yoyKey (compareYears (snd e))) (trainerMap data) =
      map (\<lambda>e. if 2 \<le> length (yearsOf (fst e) data) then [fst e] else []) (trainerMap data)"
    by (intro map_cong) simp_all
  have "map yoyKey (yearOnYearData data) =
      concat (map (\<lambda>e. map yoyKey (compareYears (snd e))) (trainerMap data))"
    by (simp add: yearOnYearData_def object_values_def map_concat o_def)
  also have "\<dots> =
      concat (map (\<lambda>e. if 2 \<le> length (yearsOf (fst e) data) then [fst e] else []) (trainerMap data))"
    by (simp only: m)
  also have "\<dots> = map fst (filter (\<lambda>e. 2 \<le> length (yearsOf (fst e) data)) (trainerMap data))"
    by (rule concat_map_if)
  finally show ?thesis by (simp add: filter_map o_def)
qed

lemma yearOnYear_row:
  assumes "row \<in> set (yearOnYearData data)"
  shows "2 \<le> length (yearsOf (yoyKey row) data) \<and>
     currentYear row = yearTotals (yearRecords (yoyKey row)
        (yearsOf (yoyKey row) data ! (length (yearsOf (yoyKey row) data) - 1)) data) \<and>
     previousYear row = yearTotals (yearRecords (yoyKey row)
        (yearsOf (yoyKey row) data ! (length (yearsOf (yoyKey row) data) - 2)) data) \<and>
     revenueGrowth row =
       delta (YearTotals.revenue (previousYear row)) (YearTotals.revenue (currentYear row))"
proof -
  from assms obtain k v where e: "(k, v) \<in> set (trainerMap data)"
    and r: "row \<in> set (compareYears v)"
    by (auto simp: yearOnYearData_def object_values_def)
  show ?thesis
  proof (cases "2 \<le> length (yearsOf k data)")
    case True
    from compareYears_row [OF e True] r True show ?thesis by auto
  next
    case False
    with compareYears_short [OF e] r show ?thesis by simp
  qed
qed

lemma yearsOf_card:
  "length (yearsOf k data) = card (yearOf ` {t \<in> set data. trainerKey t = k})"
proof -
  have "length (yearsOf k data) = card (set (map yearOf (trainerRecords k data)))"
    by (simp add: yearsOf_def length_remdups_card_conv)
  also have "set (map yearOf (trainerRecords k data)) = yearOf ` {t \<in> set data. trainerKey t = k}"
    by (simp add: trainerRecords_def)
  finally show ?thesis .
qed

lemma trainerMap_keys:
  "distinct (map fst (trainerMap data))" "set (map fst (trainerMap data)) = trainerKey ` set data"
  using groupFold_keys [of "\<lambda>_. True" trainerKey newTrainerYears addTrainerYear data]
  by (simp_all add: trainerMap_groupFold groupFold_distinct)

section \<open>Properties of the payroll table\<close>

definition isPrevOf ::
  "(string \<Rightarrow> string) \<Rightarrow> ProcessedPayrollData \<Rightarrow> ProcessedPayrollData \<Rightarrow> bool" where
  "isPrevOf prevMonthKeyOf item p \<longleftrightarrow>
     ProcessedPayrollData.location p = ProcessedPayrollData.location item \<and>
     ProcessedPayrollData.teacherName p = ProcessedPayrollData.teacherName item \<and>
     ProcessedPayrollData.monthYear p =
       Some (prevMonthKeyOf (templ (ProcessedPayrollData.monthYear item) @ ''-01''))"

definition sameBase :: "ProcessedPayrollData \<Rightarrow> ProcessedPayrollData \<Rightarrow> bool" where
  "sameBase a b \<longleftrightarrow>
     ProcessedPayrollData.location a = ProcessedPayrollData.location b \<and>
     ProcessedPayrollData.teacherName a = ProcessedPayrollData.teacherName b \<and>
     ProcessedPayrollData.monthYear a = ProcessedPayrollData.monthYear b \<and>
     ProcessedPayrollData.totalSessions a = ProcessedPayrollData.totalSessions b \<and>
     ProcessedPayrollData.totalCustomers a = ProcessedPayrollData.totalCustomers b \<and>
     ProcessedPayrollData.totalPaid a = ProcessedPayrollData.totalPaid b \<and>
     ProcessedPayrollData.emptySession a = ProcessedPayrollData.emptySession b"

definition metricsOk :: "ProcessedPayrollData \<Rightarrow> bool" where
  "metricsOk r \<longleftrightarrow>
     ProcessedPayrollData.fillRate r =
       percent (ProcessedPayrollData.totalCustomers r)
         (js_mul (ProcessedPayrollData.totalSessions r) (Fin 15)) \<and>
     ProcessedPayrollData.cancelRate r = percent (ProcessedPayrollData.emptySession r) (ProcessedPayrollData.totalSessions r) \<and>
     ProcessedPayrollData.utilizationRate r =
       percent (js_sub (ProcessedPayrollData.totalSessions r) (ProcessedPayrollData.emptySession r))
         (ProcessedPayrollData.totalSessions r)"

definition trendsOk ::
  "(string \<Rightarrow> string) \<Rightarrow> ProcessedPayrollData list \<Rightarrow> ProcessedPayrollData \<Rightarrow> bool" where
  "trendsOk pk rows r =
     (case find (isPrevOf pk r) rows of
        None \<Rightarrow> trends r = noTrends
      | Some p \<Rightarrow>
          sessionsChange (trends r) =
            Some (delta (ProcessedPayrollData.totalSessions p) (ProcessedPayrollData.totalSessions r)) \<and>
          customersChange (trends r) =
            Some (delta (ProcessedPayrollData.totalCustomers p) (ProcessedPayrollData.totalCustomers r)) \<and>
          revenueChange (trends r) =
            Some (delta (ProcessedPayrollData.totalPaid p) (ProcessedPayrollData.totalPaid r)))"

lemma sameBase_refl: "sameBase a a"
  by (simp add: sameBase_def)

lemma sameBase_sym: "sameBase a b \<Longrightarrow> sameBase b a"
  by (simp add: sameBase_def)

lemma sameBase_trans: "sameBase a b \<Longrightarrow> sameBase b c \<Longrightarrow> sameBase a c"
  by (simp add: sameBase_def)

lemma isPrevOf_base:
  "sameBase a b \<Longrightarrow> sameBase p q \<Longrightarrow> isPrevOf pk a p = isPrevOf pk b q"
  by (simp add: sameBase_def isPrevOf_def)

lemma find_sameBase:
  assumes "list_all2 sameBase xs ys" and "sameBase a b"
  shows "rel_option sameBase (find (isPrevOf pk a) xs) (find (isPrevOf pk b) ys)"
  using assms(1)
proof (induction rule: list_all2_induct)
  case Nil
  then show ?case by simp
next
  case (Cons x xs y ys)
  from isPrevOf_base [OF assms(2) Cons(1)] Cons show ?case by simp
qed

lemma payrollMetrics_base: "sameBase (payrollMetrics r) r" "trends (payrollMetrics r) = trends r"
  by (simp_all add: payrollMetrics_def sameBase_def Let_def)

lemma payrollMetrics_ok:
  "metricsOk (payrollMetrics r)" "metricsOk (payrollMetrics r \<lparr> trends := t \<rparr>)"
  by (simp_all add: payrollMetrics_def metricsOk_def Let_def percent_def)

lemma trendsOk_base:
  assumes "list_all2 sameBase xs ys" and "sameBase a b" and "trends a = trends b"
  shows "trendsOk pk xs a = trendsOk pk ys b"
proof -
  from find_sameBase [OF assms(1,2), of pk]
  show ?thesis
    using assms(2,3)
    by (cases "find (isPrevOf pk a) xs"; cases "find (isPrevOf pk b) ys")
       (auto simp: trendsOk_def sameBase_def)
qed

lemma payrollAt_find:
  "payrollAt pk rows i =
    (let item = payrollMetrics (rows ! i);
         rows' = rows[i := item]
     in case find (isPrevOf pk item) rows' of
          None \<Rightarrow> rows'
        | Some prevData \<Rightarrow> rows'[i := item \<lparr> trends := payrollTrends item prevData \<rparr>])"
proof -
  have "isPrevOf pk item = (\<lambda>p. ProcessedPayrollData.location p = ProcessedPayrollData.location item \<and>
                        ProcessedPayrollData.teacherName p = ProcessedPayrollData.teacherName item \<and>
                        ProcessedPayrollData.monthYear p =
                          Some (pk (templ (ProcessedPayrollData.monthYear item) @ ''-01'')))" for item
    by (simp add: isPrevOf_def fun_eq_iff)
  then show ?thesis by (simp add: payrollAt_def Let_def)
qed

lemma payrollTrends_delta:
  "sessionsChange (payrollTrends item p) =
     Some (delta (ProcessedPayrollData.totalSessions p) (ProcessedPayrollData.totalSessions item))"
  "customersChange (payrollTrends item p) =
     Some (delta (ProcessedPayrollData.totalCustomers p) (ProcessedPayrollData.totalCustomers item))"
  "revenueChange (payrollTrends item p) =
     Some (delta (ProcessedPayrollData.totalPaid p) (ProcessedPayrollData.totalPaid item))"
  by (simp_all add: payrollTrends_def delta_def)

lemma payrollAt_step:
  assumes inv: "list_all2 sameBase rows rows0" and i: "i < length rows"
    and nt: "trends (rows ! i) = noTrends"
  shows "list_all2 sameBase (payrollAt pk rows i) rows0"
    and "trendsOk pk rows0 (payrollAt pk rows i ! i)"
    and "\<forall>j. j \<noteq> i \<longrightarrow> payrollAt pk rows i ! j = rows ! j"
    and "metricsOk (payrollAt pk rows i ! i)"
proof -
  let ?item = "payrollMetrics (rows ! i)"
  let ?rows' = "rows[i := ?item]"
  have len: "length rows = length rows0" using inv by (rule list_all2_lengthD)
  have b_i: "sameBase (rows ! i) (rows0 ! i)" using inv i by (rule list_all2_nthD)
  have item: "sameBase ?item (rows0 ! i)"
    using payrollMetrics_base(1) b_i by (rule sameBase_trans)
  have inv': "list_all2 sameBase ?rows' rows0"
    using inv item i len by (auto simp: list_all2_conv_all_nth nth_list_update)
  have rel: "rel_option sameBase (find (isPrevOf pk ?item) ?rows') (find (isPrevOf pk (rows0 ! i)) rows0)"
    using inv' item by (rule find_sameBase)
  show "list_all2 sameBase (payrollAt pk rows i) rows0"
  proof (cases "find (isPrevOf pk ?item) ?rows'")
    case None
    with inv' show ?thesis by (simp add: payrollAt_find Let_def)
  next
    case (Some p)
    have "sameBase (?item \<lparr> trends := payrollTrends ?item p \<rparr>) (rows0 ! i)"
      using item by (simp add: sameBase_def)
    then have "list_all2 sameBase (?rows'[i := ?item \<lparr> trends := payrollTrends ?item p \<rparr>]) rows0"
      using inv' i len by (auto simp: list_all2_conv_all_nth nth_list_update)
    with Some show ?thesis by (simp add: payrollAt_find Let_def)
  qed
  show "trendsOk pk rows0 (payrollAt pk rows i ! i)"
  proof (cases "find (isPrevOf pk ?item) ?rows'")
    case None
    with rel have n0: "find (isPrevOf pk (rows0 ! i)) rows0 = None" by simp
    have "payrollAt pk rows i ! i = ?item"
      using None i by (simp add: payrollAt_find Let_def)
    moreover have "trendsOk pk rows0 ?item"
    proof -
      have "isPrevOf pk ?item = isPrevOf pk (rows0 ! i)"
        using item by (simp add: isPrevOf_def fun_eq_iff sameBase_def)
      with n0 show ?thesis by (simp add: trendsOk_def payrollMetrics_base(2) nt)
    qed
    ultimately show ?thesis by simp
  next
    case (Some p)
    with rel obtain p0 where p0: "find (isPrevOf pk (rows0 ! i)) rows0 = Some p0"
      and pb: "sameBase p p0"
      by (auto simp: option_rel_Some1)
    let ?new = "?item \<lparr> trends := payrollTrends ?item p \<rparr>"
    have at: "payrollAt pk rows i ! i = ?new"
      using Some i by (simp add: payrollAt_find Let_def)
    have f: "find (isPrevOf pk ?new) rows0 = Some p0"
    proof -
      have "isPrevOf pk ?new = isPrevOf pk (rows0 ! i)"
        using item by (simp add: isPrevOf_def fun_eq_iff sameBase_def)
      with p0 show ?thesis by simp
    qed
    show ?thesis
      using pb item
      by (simp add: at trendsOk_def f payrollTrends_delta sameBase_def)
  qed
  show "\<forall>j. j \<noteq> i \<longrightarrow> payrollAt pk rows i ! j = rows ! j"
    by (cases "find (isPrevOf pk ?item) ?rows'") (simp_all add: payrollAt_find Let_def)
  show "metricsOk (payrollAt pk rows i ! i)"
    using i
    by (cases "find (isPrevOf pk ?item) ?rows'")
       (simp_all add: payrollAt_find Let_def payrollMetrics_ok)
qed

lemma payroll_fold:
  assumes nt: "\<forall>j<length rows0. trends (rows0 ! j) = noTrends"
  shows "n \<le> length rows0 \<Longrightarrow>
     list_all2 sameBase (foldl (payrollAt pk) rows0 [0..<n]) rows0 \<and>
     (\<forall>j<n. trendsOk pk rows0 (foldl (payrollAt pk) rows0 [0..<n] ! j)) \<and>
     (\<forall>j<n. metricsOk (foldl (payrollAt pk) rows0 [0..<n] ! j)) \<and>
     (\<forall>j\<ge>n. foldl (payrollAt pk) rows0 [0..<n] ! j = rows0 ! j)"
proof (induction n)
  case 0
  show ?case by (simp add: list_all2_refl sameBase_refl)
next
  case (Suc n)
  let ?cur = "foldl (payrollAt pk) rows0 [0..<n]"
  from Suc have inv: "list_all2 sameBase ?cur rows0"
    and ok: "\<forall>j<n. trendsOk pk rows0 (?cur ! j)"
    and mok: "\<forall>j<n. metricsOk (?cur ! j)"
    and rest: "\<forall>j\<ge>n. ?cur ! j = rows0 ! j"
    by simp_all
  have len: "length ?cur = length rows0" using inv by (rule list_all2_lengthD)
  from Suc.prems have i: "n < length ?cur" by (simp add: len)
  have t: "trends (?cur ! n) = noTrends"
    using rest nt Suc.prems by simp
  note st = payrollAt_step [OF inv i t, of pk]
  have next_eq: "foldl (payrollAt pk) rows0 [0..<Suc n] = payrollAt pk ?cur n"
    by simp
  show ?case
    unfolding next_eq
  proof (intro conjI allI impI)
    show "list_all2 sameBase (payrollAt pk ?cur n) rows0" by (rule st(1))
  next
    fix j assume "j < Suc n"
    then show "trendsOk pk rows0 (payrollAt pk ?cur n ! j)"
      using st(2,3) ok by (cases "j = n") simp_all
  next
    fix j assume "j < Suc n"
    then show "metricsOk (payrollAt pk ?cur n ! j)"
      using st(3,4) mok by (cases "j = n") simp_all
  next
    fix j assume "Suc n \<le> j"
    then show "payrollAt pk ?cur n ! j = rows0 ! j"
      using st(3) rest by simp
  qed
qed

lemma payrollGrouped_groupFold:
  "payrollGrouped fd = groupFold (\<lambda>_. True) payrollKey newProcessedPayroll payrollAdd fd"
  unfolding payrollGrouped_def groupFold_def
  by (rule arg_cong [where f = "\<lambda>f. foldl f [] fd"]) (simp add: fun_eq_iff payrollStep_def)

lemma payrollAdd_trends:
  "trends (foldl (\<lambda>v y. payrollAdd y v) v0 ys) = trends v0"
  by (induction ys arbitrary: v0) (simp_all add: payrollAdd_def)

lemma payrollGrouped_trends:
  assumes "r \<in> set (object_values (payrollGrouped fd))"
  shows "trends r = noTrends"
proof -
  from assms obtain k where "(k, r) \<in> set (payrollGrouped fd)"
    by (auto simp: object_values_def)
  then have "foldRow newProcessedPayroll payrollAdd (filter (\<lambda>x. True \<and> payrollKey x = k) fd) = Some r"
    by (simp add: payrollGrouped_groupFold groupFold_entry)
  then obtain x xs where "r = foldl (\<lambda>v y. payrollAdd y v) (newProcessedPayroll x) (x # xs)"
    by (cases "filter (\<lambda>x. True \<and> payrollKey x = k) fd") auto
  then show ?thesis
    by (simp only: payrollAdd_trends) (simp add: newProcessedPayroll_def)
qed

lemma payroll_trends:
  assumes "row \<in> set (payrollProcessedData pk loc data)"
  shows "trendsOk pk (payrollProcessedData pk loc data) row"
proof (cases "data = []")
  case True
  with assms show ?thesis by (simp add: payrollProcessedData_def)
next
  case False
  let ?rows0 = "object_values (payrollGrouped (filterByLocation loc data))"
  let ?out = "foldl (payrollAt pk) ?rows0 [0..<length ?rows0]"
  have out: "payrollProcessedData pk loc data = ?out"
    using False by (simp add: payrollProcessedData_def Let_def)
  have nt: "\<forall>j<length ?rows0. trends (?rows0 ! j) = noTrends"
  proof (intro allI impI)
    fix j assume "j < length ?rows0"
    then have "?rows0 ! j \<in> set ?rows0" by (rule nth_mem)
    then show "trends (?rows0 ! j) = noTrends" by (rule payrollGrouped_trends)
  qed
  from payroll_fold [OF nt, of "length ?rows0" pk]
  have inv: "list_all2 sameBase ?out ?rows0"
    and ok: "\<forall>j<length ?rows0. trendsOk pk ?rows0 (?out ! j)"
    by simp_all
  have len: "length ?out = length ?rows0" using inv by (rule list_all2_lengthD)
  from assms obtain j where j: "j < length ?out" and r: "row = ?out ! j"
    unfolding out by (auto simp: in_set_conv_nth)
  from ok j have "trendsOk pk ?rows0 row" by (simp add: len r)
  moreover have "trendsOk pk ?out row = trendsOk pk ?rows0 row"
    using inv by (rule trendsOk_base) (simp_all add: sameBase_refl)
  ultimately show ?thesis by (simp add: out)
qed

lemma payrollAdd_sums:
  "ProcessedPayrollData.totalSessions (foldl (\<lambda>v y. payrollAdd y v) v0 ys) =
     ProcessedPayrollData.totalSessions v0 + (\<Sum>y\<leftarrow>ys. orZero (PayrollData.totalSessions y))"
  "ProcessedPayrollData.totalCustomers (foldl (\<lambda>v y. payrollAdd y v) v0 ys) =
     ProcessedPayrollData.totalCustomers v0 + (\<Sum>y\<leftarrow>ys. orZero (PayrollData.totalCustomers y))"
  "ProcessedPayrollData.emptySession (foldl (\<lambda>v y. payrollAdd y v) v0 ys) =
     ProcessedPayrollData.emptySession v0 + (\<Sum>y\<leftarrow>ys. orZero (totalEmptySessions y))"
  by (induction ys arbitrary: v0; simp add: payrollAdd_def add.assoc)+

lemma filterByLocation_subset: "set (filterByLocation loc data) \<subseteq> set data"
  by (auto simp: filterByLocation_def split: option.splits)

lemma payrollGrouped_nonneg:
  assumes "r \<in> set (object_values (payrollGrouped fd))"
    and "\<forall>y\<in>set fd. nonNegativeInput (PayrollData.totalSessions y) \<and>
           nonNegativeInput (PayrollData.totalCustomers y) \<and>
           nonNegativeInput (totalEmptySessions y)"
  shows "nonnegFinite (ProcessedPayrollData.totalSessions r)"
    and "nonnegFinite (ProcessedPayrollData.totalCustomers r)"
    and "nonnegFinite (ProcessedPayrollData.emptySession r)"
proof -
  from assms(1) obtain k where "(k, r) \<in> set (payrollGrouped fd)"
    by (auto simp: object_values_def)
  then have "foldRow newProcessedPayroll payrollAdd (filter (\<lambda>x. True \<and> payrollKey x = k) fd) = Some r"
    by (simp add: payrollGrouped_groupFold groupFold_entry)
  then obtain x xs where ss: "filter (\<lambda>x. True \<and> payrollKey x = k) fd = x # xs"
    and r: "r = foldl (\<lambda>v y. payrollAdd y v) (newProcessedPayroll x) (x # xs)"
    by (cases "filter (\<lambda>x. True \<and> payrollKey x = k) fd") auto
  have "set (x # xs) \<subseteq> set fd"
    unfolding ss [symmetric] by auto
  with assms(2) have nn: "\<forall>y\<in>set (x # xs). nonnegFinite (orZero (PayrollData.totalSessions y)) \<and>
      nonnegFinite (orZero (PayrollData.totalCustomers y)) \<and>
      nonnegFinite (orZero (totalEmptySessions y))"
    unfolding nonNegativeInput_def by blast
  have z: "ProcessedPayrollData.totalSessions (newProcessedPayroll x) = Fin 0"
    "ProcessedPayrollData.totalCustomers (newProcessedPayroll x) = Fin 0"
    "ProcessedPayrollData.emptySession (newProcessedPayroll x) = Fin 0"
    by (simp_all add: newProcessedPayroll_def)
  show "nonnegFinite (ProcessedPayrollData.totalSessions r)"
    unfolding r payrollAdd_sums z plus_Fin_0
    by (rule nonnegFinite_sum_list) (use nn in blast)
  show "nonnegFinite (ProcessedPayrollData.totalCustomers r)"
    unfolding r payrollAdd_sums z plus_Fin_0
    by (rule nonnegFinite_sum_list) (use nn in blast)
  show "nonnegFinite (ProcessedPayrollData.emptySession r)"
    unfolding r payrollAdd_sums z plus_Fin_0
    by (rule nonnegFinite_sum_list) (use nn in blast)
qed

lemma payroll_rows:
  assumes "row \<in> set (payrollProcessedData pk loc data)"
  shows "metricsOk row"
    and "\<exists>r0\<in>set (object_values (payrollGrouped (filterByLocation loc data))). sameBase row r0"
proof -
  have ne: "data \<noteq> []" using assms by (auto simp: payrollProcessedData_def)
  let ?rows0 = "object_values (payrollGrouped (filterByLocation loc data))"
  let ?out = "foldl (payrollAt pk) ?rows0 [0..<length ?rows0]"
  have out: "payrollProcessedData pk loc data = ?out"
    using ne by (simp add: payrollProcessedData_def Let_def)
  have nt: "\<forall>j<length ?rows0. trends (?rows0 ! j) = noTrends"
  proof (intro allI impI)
    fix j assume "j < length ?rows0"
    then have "?rows0 ! j \<in> set ?rows0" by (rule nth_mem)
    then show "trends (?rows0 ! j) = noTrends" by (rule payrollGrouped_trends)
  qed
  from payroll_fold [OF nt, of "length ?rows0" pk]
  have inv: "list_all2 sameBase ?out ?rows0"
    and mok: "\<forall>j<length ?rows0. metricsOk (?out ! j)"
    by simp_all
  have len: "length ?out = length ?rows0" using inv by (rule list_all2_lengthD)
  from assms obtain j where j: "j < length ?out" and r: "row = ?out ! j"
    unfolding out by (auto simp: in_set_conv_nth)
  from mok j show "metricsOk row" by (simp add: len r)
  from inv j have "sameBase row (?rows0 ! j)" unfolding r by (rule list_all2_nthD)
  moreover from j have "?rows0 ! j \<in> set ?rows0" by (simp add: len)
  ultimately show "\<exists>r0\<in>set ?rows0. sameBase row r0" by blast
qed

lemma percent_Fin:
  "percent (Fin a) (Fin b) = (if 0 < b then Fin (a / b * 100) else Fin 0)"
  by (simp add: percent_def)

lemma payroll_rates:
  assumes "row \<in> set (payrollProcessedData pk loc data)"
    and "\<forall>y\<in>set data. nonNegativeInput (PayrollData.totalSessions y) \<and>
           nonNegativeInput (PayrollData.totalCustomers y) \<and>
           nonNegativeInput (totalEmptySessions y)"
  shows "js_ge (ProcessedPayrollData.fillRate row) (Fin 0) \<and>
     js_ge (ProcessedPayrollData.cancelRate row) (Fin 0) \<and>
     js_ge (Fin 100) (ProcessedPayrollData.utilizationRate row) \<and>
     (js_ge (Fin 100) (ProcessedPayrollData.fillRate row) \<longleftrightarrow>
        ProcessedPayrollData.totalSessions row = Fin 0 \<or>
        js_ge (js_mul (ProcessedPayrollData.totalSessions row) (Fin 15))
          (ProcessedPayrollData.totalCustomers row)) \<and>
     (js_ge (Fin 100) (ProcessedPayrollData.cancelRate row) \<longleftrightarrow>
        ProcessedPayrollData.totalSessions row = Fin 0 \<or>
        js_ge (ProcessedPayrollData.totalSessions row) (ProcessedPayrollData.emptySession row)) \<and>
     (js_ge (ProcessedPayrollData.utilizationRate row) (Fin 0) \<longleftrightarrow>
        ProcessedPayrollData.totalSessions row = Fin 0 \<or>
        js_ge (ProcessedPayrollData.totalSessions row) (ProcessedPayrollData.emptySession row)) \<and>
     (ProcessedPayrollData.totalSessions row = Fin 0 \<longrightarrow>
        ProcessedPayrollData.fillRate row = Fin 0 \<and> ProcessedPayrollData.cancelRate row = Fin 0 \<and>
        ProcessedPayrollData.utilizationRate row = Fin 0)"
proof -
  from payroll_rows(2) [OF assms(1)] obtain r0
    where r0: "r0 \<in> set (object_values (payrollGrouped (filterByLocation loc data)))"
      and b: "sameBase row r0" by blast
  have "\<forall>y\<in>set (filterByLocation loc data). nonNegativeInput (PayrollData.totalSessions y) \<and>
           nonNegativeInput (PayrollData.totalCustomers y) \<and>
           nonNegativeInput (totalEmptySessions y)"
    using assms(2) filterByLocation_subset [of loc data] by blast
  note nn = payrollGrouped_nonneg [OF r0 this]
  from nn b obtain n c e where v: "ProcessedPayrollData.totalSessions row = Fin n" "0 \<le> n"
    "ProcessedPayrollData.totalCustomers row = Fin c" "0 \<le> c"
    "ProcessedPayrollData.emptySession row = Fin e" "0 \<le> e"
    by (auto simp: nonnegFinite_iff sameBase_def)
  note m = payroll_rows(1) [OF assms(1), unfolded metricsOk_def]
  show ?thesis
  proof (cases "n = 0")
    case True
    with v m show ?thesis by (simp add: percent_Fin js_sub_Fin)
  next
    case False
    with v have pos: "0 < n" by simp
    have f: "c / (n * 15) * 100 \<le> 100 \<longleftrightarrow> c \<le> n * 15"
      using pos by (simp add: field_simps)
    have g: "e / n * 100 \<le> 100 \<longleftrightarrow> e \<le> n"
      using pos by (simp add: field_simps)
    have u: "0 \<le> (n - e) / n * 100 \<longleftrightarrow> e \<le> n"
      using pos by (simp add: zero_le_divide_iff zero_le_mult_iff)
    have u': "(n - e) / n * 100 \<le> 100"
      using pos v(6) by (simp add: field_simps)
    have nn1: "0 \<le> c / (n * 15) * 100" "0 \<le> e / n * 100"
      using pos v by simp_all
    from v m pos False f g u u' nn1 show ?thesis
      by (simp add: percent_Fin js_sub_Fin js_ge_Fin del: js_ge.simps)
  qed
qed

lemmas payroll_defs =
  payrollProcessedData_def filterByLocation_def payrollGrouped_def payrollStep_def payrollKey_def
  newProcessedPayroll_def payrollAdd_def payrollAt_def payrollMetrics_def payrollTrends_def
  object_values_def Let_def js_sub_def calendarPrevMonth_def noTrends_def
  payroll_jan_def payroll_feb_def payroll_mar_def payroll_sample_def

section \<open>Properties of the ranking table\<close>

lemma groupFold_keys_only:
  "map fst (groupFold keep key init upd xs) = map fst (groupFold keep key init' upd' xs)"
  by (induction xs rule: rev_induct) (simp_all add: groupFold_Nil groupFold_snoc upsert_keys)

definition rankingRow :: "string \<Rightarrow> SessionData list \<Rightarrow> RankingClassData" where
  "rankingRow ct ss =
     foldl (\<lambda>classData session. rankingAddSession session classData) (newRankingClassData ct) ss"

lemma rankingRow_Nil: "rankingRow ct [] = newRankingClassData ct"
  by (simp add: rankingRow_def)

lemma rankingRow_snoc: "rankingRow ct (ss @ [s]) = rankingAddSession s (rankingRow ct ss)"
  by (simp add: rankingRow_def)

lemma rankingRow_fields:
  "classType (rankingRow ct ss) = ct"
  "RankingClassData.sessions (rankingRow ct ss) = ss"
  "RankingClassData.totalSessions (rankingRow ct ss) = Fin (of_nat (length ss))"
  "RankingClassData.totalCheckedIn (rankingRow ct ss) = (\<Sum>s\<leftarrow>ss. orZero (checkedInCount s))"
  "RankingClassData.totalRevenue (rankingRow ct ss) = (\<Sum>s\<leftarrow>ss. orZero (SessionData.totalPaid s))"
  "RankingClassData.totalCapacity (rankingRow ct ss) = (\<Sum>s\<leftarrow>ss. orZero (capacity s))"
  "RankingClassData.totalBooked (rankingRow ct ss) = (\<Sum>s\<leftarrow>ss. orZero (bookedCount s))"
  by (induction ss rule: rev_induct;
      simp add: rankingRow_Nil rankingRow_snoc newRankingClassData_def rankingAddSession_def)+

lemma rankingGrouped_groupFold:
  "rankingGrouped data =
     groupFold notHosted classFormatOf (\<lambda>s. newRankingClassData (classFormatOf s))
       rankingAddSession data"
  unfolding rankingGrouped_def groupFold_def
  by (rule arg_cong [where f = "\<lambda>f. foldl f [] data"])
     (simp add: fun_eq_iff rankingStep_def Let_def isHosted_def)

lemma rankingGrouped_keys: "map fst (rankingGrouped data) = map fst (grouped data)"
  unfolding rankingGrouped_groupFold grouped_groupFold by (rule groupFold_keys_only)

lemma foldRow_rankingRow:
  "foldRow (\<lambda>s. newRankingClassData (classFormatOf s)) rankingAddSession ss =
     (case ss of [] \<Rightarrow> None | s # _ \<Rightarrow> Some (rankingRow (classFormatOf s) ss))"
  by (cases ss) (simp_all add: rankingRow_def)

lemma rankingGrouped_row:
  assumes "(k, row) \<in> set (rankingGrouped data)"
  shows "row = rankingRow k (sessionsOfFormat k data)"
proof -
  from assms have "k \<in> set (map fst (grouped data))"
    unfolding rankingGrouped_keys [symmetric] by force
  then have "k \<in> classFormatOf ` {s \<in> set data. notHosted s}"
    by (simp only: grouped_keys)
  then have nh: "\<not> isHosted k" by auto
  then have f: "filter (\<lambda>x. notHosted x \<and> classFormatOf x = k) data = sessionsOfFormat k data"
    unfolding sessionsOfFormat_def by (auto intro!: filter_cong)
  from assms have "foldRow (\<lambda>s. newRankingClassData (classFormatOf s)) rankingAddSession
      (sessionsOfFormat k data) = Some row"
    by (simp add: rankingGrouped_groupFold groupFold_entry f)
  then obtain a list where c: "sessionsOfFormat k data = a # list"
    and r: "row = rankingRow (classFormatOf a) (a # list)"
    unfolding foldRow_rankingRow by (cases "sessionsOfFormat k data") auto
  from c have "a \<in> set (sessionsOfFormat k data)" by simp
  then have "classFormatOf a = k" by (simp add: sessionsOfFormat_def)
  with c r show ?thesis by simp
qed

lemma rankingGrouped_values:
  "object_values (rankingGrouped data) =
     map (\<lambda>k. rankingRow k (sessionsOfFormat k data)) (map fst (grouped data))"
  unfolding object_values_def rankingGrouped_keys [symmetric]
  by (auto simp: rankingGrouped_row)

lemma rankingEnrich_keeps:
  "classType (rankingEnrich r) = classType r"
  "RankingClassData.sessions (rankingEnrich r) = RankingClassData.sessions r"
  "RankingClassData.totalSessions (rankingEnrich r) = RankingClassData.totalSessions r"
  "RankingClassData.totalCheckedIn (rankingEnrich r) = RankingClassData.totalCheckedIn r"
  "RankingClassData.totalRevenue (rankingEnrich r) = RankingClassData.totalRevenue r"
  "RankingClassData.totalCapacity (rankingEnrich r) = RankingClassData.totalCapacity r"
  "RankingClassData.totalBooked (rankingEnrich r) = RankingClassData.totalBooked r"
  by (simp_all add: rankingEnrich_def Let_def)

lemma rankingProcessedData_rows:
  "rankingProcessedData minSessions data =
     map (\<lambda>k. rankingEnrich (rankingRow k (sessionsOfFormat k data)))
       (emittedFormats minSessions data)"
proof (cases "data = []")
  case True
  then show ?thesis by (simp add: rankingProcessedData_def emittedFormats_def grouped_Nil)
next
  case False
  then show ?thesis
    by (simp add: rankingProcessedData_def rankingGrouped_values emittedFormats_def filter_map
          o_def rankingRow_fields)
qed

lemma rankingGrouped_filter: "rankingGrouped (filter notHosted data) = rankingGrouped data"
  by (simp only: rankingGrouped_groupFold groupFold_filter)

lemma rankingProcessedData_filter:
  "rankingProcessedData minSessions (filter notHosted data) = rankingProcessedData minSessions data"
proof -
  have "rankingGrouped [] = []" by (simp add: rankingGrouped_def)
  then have e: "filter notHosted data = [] \<Longrightarrow> rankingGrouped data = []"
    using rankingGrouped_filter [of data] by simp
  show ?thesis
  proof (cases "filter notHosted data = []")
    case True
    with e show ?thesis by (simp add: rankingProcessedData_def object_values_def)
  next
    case False
    then have "data \<noteq> []" by auto
    with False show ?thesis by (simp add: rankingProcessedData_def rankingGrouped_filter)
  qed
qed

section \<open>Properties of TrainerDataProcessor\<close>

lemma processRecord_strength:
  "ProcessedTrainerData.strengthSessions (processRecord r) = Fin 0"
  "ProcessedTrainerData.emptyStrengthSessions (processRecord r) = Fin 0"
  "ProcessedTrainerData.nonEmptyStrengthSessions (processRecord r) = Fin 0"
  "ProcessedTrainerData.strengthCustomers (processRecord r) = Fin 0"
  "ProcessedTrainerData.strengthRevenue (processRecord r) = Fin 0"
  "ProcessedTrainerData.newMembers (processRecord r) = Fin 0"
  by (simp_all add: processRecord_def Let_def)

text \<open>
  Claim C10. Every row returned by \<^verbatim>\<open>processTrainerData\<close> has
  \<^verbatim>\<open>ProcessedTrainerData.strengthSessions\<close>, \<^verbatim>\<open>ProcessedTrainerData.emptyStrengthSessions\<close>, \<^verbatim>\<open>ProcessedTrainerData.nonEmptyStrengthSessions\<close>,
  \<^verbatim>\<open>ProcessedTrainerData.strengthCustomers\<close>, \<^verbatim>\<open>ProcessedTrainerData.strengthRevenue\<close> and \<^verbatim>\<open>ProcessedTrainerData.newMembers\<close> equal to 0,
  whatever the input records hold.
\<close>

theorem processTrainerData_strength_zero:
  "\<forall>row \<in> set (processTrainerData payrollData).
     ProcessedTrainerData.strengthSessions row = Fin 0 \<and> ProcessedTrainerData.emptyStrengthSessions row = Fin 0 \<and>
     ProcessedTrainerData.nonEmptyStrengthSessions row = Fin 0 \<and> ProcessedTrainerData.strengthCustomers row = Fin 0 \<and>
     ProcessedTrainerData.strengthRevenue row = Fin 0 \<and> ProcessedTrainerData.newMembers row = Fin 0"
  unfolding processTrainerData_def by (auto simp: processRecord_strength)

theorem processTrainerData_strength_zero_witness:
  "processRecord payroll_sample \<in> set (processTrainerData [payroll_sample]) \<and>
   ProcessedTrainerData.strengthSessions (processRecord payroll_sample) = Fin 0 \<and>
   ProcessedTrainerData.strengthRevenue (processRecord payroll_sample) = Fin 0 \<and>
   ProcessedTrainerData.newMembers (processRecord payroll_sample) = Fin 0 \<and>
   ProcessedTrainerData.totalSessions (processRecord payroll_sample) = Fin 10"
proof -
  have m: "processRecord payroll_sample \<in> set (processTrainerData [payroll_sample])"
    by (simp add: processTrainerData_def)
  have t: "ProcessedTrainerData.totalSessions (processRecord payroll_sample) = Fin 10"
    by (simp add: processRecord_def payroll_sample_def)
  from processTrainerData_strength_zero [of "[payroll_sample]"] m t show ?thesis
    by blast
qed

section \<open>Claims about the class-format table\<close>

lemmas sample_defs =
  session_a_def session_b_def session_c_def session_hosted_def session_cycle_def
  session_unbounded_def session_walkin_def sample_sessions_def

lemmas classformat_defs =
  processedData_def enrichedData_def applyViewFilter_def grouped_def groupStep_def
  object_values_def classFormatOf_def isHosted_def js_includes_def toLowerCase_def
  toLowerCase_char_def newClassFormatData_def addSession_def enrich_def Let_def js_sub_def
  sublist_code


lemma countedSessions_sample:
  "countedSessions (Fin 2) sample_sessions = [session_a, session_b, session_c]"
  by (simp add: countedSessions_def sessionsOfFormat_def sample_defs classformat_defs)




lemma processedData_sample:
  "map classFormat (processedData (Fin 3) ''all'' sample_sessions) = [''Barre 57'']"
  "map ClassFormatData.totalSessions (processedData (Fin 3) ''all'' sample_sessions) = [Fin 3]"
  by (simp_all add: sample_defs classformat_defs)

lemma trend_sample:
  "map (\<lambda>row. TrendValues.sessions (totalValues row))
     (trendProcessedData isoMonthKey ''format'' (Fin 3) sample_sessions) = [Fin 3]"
  by code_simp


text \<open>
  Claim C4. In the class-format table and in the ranking table a record whose class format
  contains \<^verbatim>\<open>hosted\<close> in any letter case changes nothing: the rows are those computed
  from the input without the hosted records, no row is a hosted format, and no row lists a
  hosted session.
\<close>

theorem hosted_excluded:
  "processedData minSessions viewFilter data =
     processedData minSessions viewFilter (filter (\<lambda>s. \<not> isHosted (classFormatOf s)) data) \<and>
   (\<forall>row\<in>set (processedData minSessions viewFilter data).
      \<not> isHosted (classFormat row) \<and>
      (\<forall>s\<in>set (ClassFormatData.sessions row). \<not> isHosted (classFormatOf s))) \<and>
   rankingProcessedData minSessions data =
     rankingProcessedData minSessions (filter (\<lambda>s. \<not> isHosted (classFormatOf s)) data) \<and>
   (\<forall>row\<in>set (rankingProcessedData minSessions data).
      \<not> isHosted (classType row) \<and>
      (\<forall>s\<in>set (RankingClassData.sessions row). \<not> isHosted (classFormatOf s)))"
proof (intro conjI ballI)
  show "processedData minSessions viewFilter data =
     processedData minSessions viewFilter (filter (\<lambda>s. \<not> isHosted (classFormatOf s)) data)"
    by (simp only: processedData_filter)
  show "rankingProcessedData minSessions data =
     rankingProcessedData minSessions (filter (\<lambda>s. \<not> isHosted (classFormatOf s)) data)"
    by (simp only: rankingProcessedData_filter)
next
  fix row assume "row \<in> set (processedData minSessions viewFilter data)"
  then obtain k where k: "k \<in> set (emittedFormats minSessions data)"
    and row: "row = enrich (groupRow k (sessionsOfFormat k data))"
    by (rule processedData_row)
  from k have nh: "\<not> isHosted k" by (simp add: emittedFormats_set)
  from row show "\<not> isHosted (classFormat row)"
    using nh by (simp add: enrich_keeps groupRow_classFormat)
  fix s assume "s \<in> set (ClassFormatData.sessions row)"
  with row have "classFormatOf s = k"
    by (simp add: enrich_keeps groupRow_sessions sessionsOfFormat_def)
  with nh show "\<not> isHosted (classFormatOf s)" by simp
next
  fix row assume "row \<in> set (rankingProcessedData minSessions data)"
  then obtain k where k: "k \<in> set (emittedFormats minSessions data)"
    and row: "row = rankingEnrich (rankingRow k (sessionsOfFormat k data))"
    by (auto simp: rankingProcessedData_rows)
  from k have nh: "\<not> isHosted k" by (simp add: emittedFormats_set)
  from row show "\<not> isHosted (classType row)"
    using nh by (simp add: rankingEnrich_keeps rankingRow_fields)
  fix s assume "s \<in> set (RankingClassData.sessions row)"
  with row have "classFormatOf s = k"
    by (simp add: rankingEnrich_keeps rankingRow_fields sessionsOfFormat_def)
  with nh show "\<not> isHosted (classFormatOf s)" by simp
qed

theorem hosted_excluded_witness:
  "isHosted (classFormatOf session_hosted) \<and>
   processedData (Fin 1) ''all'' [session_hosted, session_a, session_hosted] =
     processedData (Fin 1) ''all'' [session_a] \<and>
   map ClassFormatData.sessions (processedData (Fin 1) ''all'' [session_hosted, session_a, session_hosted])
     = [[session_a]]"
proof -
  have h: "isHosted (classFormatOf session_hosted)" "\<not> isHosted (classFormatOf session_a)"
    by (simp_all add: sample_defs classformat_defs)
  have r: "map ClassFormatData.sessions (processedData (Fin 1) ''all'' [session_a]) = [[session_a]]"
    by (simp add: sample_defs classformat_defs)
  from hosted_excluded [of "Fin 1" "''all''" "[session_hosted, session_a, session_hosted]"] h
  have "processedData (Fin 1) ''all'' [session_hosted, session_a, session_hosted] =
     processedData (Fin 1) ''all'' [session_a]"
    by simp
  with h r show ?thesis by simp
qed

section \<open>Claim C1: derived ratios\<close>

lemma classformat_zero_denominator:
  assumes "row \<in> set (processedData minSessions viewFilter data)"
  shows "(ClassFormatData.totalCapacity row = Fin 0 \<longrightarrow> ClassFormatData.fillRate row = Fin 0) \<and>
         (ClassFormatData.totalBooked row = Fin 0 \<longrightarrow>
            ClassFormatData.showUpRate row = Fin 0 \<and> cancellationRate row = Fin 0) \<and>
         (ClassFormatData.totalCheckedIn row = Fin 0 \<longrightarrow>
            ClassFormatData.revenuePerAttendee row = Fin 0) \<and>
         (ClassFormatData.totalSessions row = Fin 0 \<longrightarrow>
            ClassFormatData.avgClassSize row = Fin 0 \<and> ClassFormatData.avgRevenue row = Fin 0 \<and>
            ClassFormatData.utilizationRate row = Fin 0)"
proof -
  from assms obtain k where row: "row = enrich (groupRow k (sessionsOfFormat k data))"
    by (rule processedData_row)
  show ?thesis
    unfolding row enrich_metrics enrich_keeps by (simp add: ratio_zero)
qed

lemma classformat_finite:
  assumes "\<forall>s\<in>set data. finiteInput (capacity s) \<and> finiteInput (checkedInCount s) \<and>
             finiteInput (bookedCount s) \<and> finiteInput (lateCancelledCount s) \<and>
             finiteInput (SessionData.totalPaid s)"
    and "row \<in> set (processedData minSessions viewFilter data)"
  shows "is_finite (ClassFormatData.fillRate row) \<and>
         is_finite (ClassFormatData.showUpRate row) \<and>
         is_finite (ClassFormatData.utilizationRate row) \<and>
         is_finite (cancellationRate row) \<and>
         is_finite (ClassFormatData.avgClassSize row) \<and>
         is_finite (ClassFormatData.avgRevenue row) \<and>
         is_finite (ClassFormatData.revenuePerAttendee row) \<and>
         is_finite (ClassFormatData.revenueEfficiency row) \<and>
         is_finite (ClassFormatData.emptySessionRate row)"
proof -
  from assms(2) obtain k where row: "row = enrich (groupRow k (sessionsOfFormat k data))"
    by (rule processedData_row)
  let ?g = "groupRow k (sessionsOfFormat k data)"
  have sub: "set (sessionsOfFormat k data) \<subseteq> set data"
    by (rule sessionsOfFormat_subset)
  have fin: "is_finite (ClassFormatData.totalSessions ?g)"
    "is_finite (ClassFormatData.emptySessions ?g)"
    "is_finite (ClassFormatData.revenueGeneratingSessions ?g)"
    "is_finite (ClassFormatData.totalCheckedIn ?g)"
    "is_finite (ClassFormatData.totalRevenue ?g)"
    "is_finite (ClassFormatData.totalCapacity ?g)"
    "is_finite (ClassFormatData.totalBooked ?g)"
    "is_finite (ClassFormatData.totalLateCancelled ?g)"
    using assms(1) sub
    by (auto simp: groupRow_totalSessions groupRow_emptySessions groupRow_revenueGenerating
          groupRow_sums finiteInput_orZero intro!: is_finite_sum_list)
  have diff: "is_finite (js_sub (ClassFormatData.totalSessions ?g) (ClassFormatData.emptySessions ?g))"
    by (simp add: groupRow_totalSessions groupRow_emptySessions js_sub_Fin)
  show ?thesis
    unfolding row enrich_metrics
    using fin diff by (simp add: ratio_finite percent_finite)
qed

lemma processRecord_averages:
  "classAverageExclEmpty (processRecord r) =
     ratio (orZero (PayrollData.totalCustomers r)) (orZero (totalNonEmptySessions r))"
  "classAverageInclEmpty (processRecord r) =
     ratio (orZero (PayrollData.totalCustomers r)) (orZero (PayrollData.totalSessions r))"
  "ProcessedTrainerData.nonEmptySessions (processRecord r) = orZero (totalNonEmptySessions r)"
  "ProcessedTrainerData.totalSessions (processRecord r) = orZero (PayrollData.totalSessions r)"
  by (simp_all add: processRecord_def Let_def ratio_def)


lemma walkin_rows:
  "map ClassFormatData.totalCapacity (processedData (Fin 1) ''all'' [session_walkin]) = [Fin 0]"
  "map ClassFormatData.revenuePerAttendee (processedData (Fin 1) ''all'' [session_walkin]) = [Fin 0]"
  "processedData (Fin 1) ''all'' [session_walkin] \<noteq> []"
  by (simp_all add: sample_defs classformat_defs)



section \<open>Claim C5: the range of the rates\<close>

lemma groupRow_nonneg:
  assumes "\<forall>s\<in>set ss. nonNegativeInput (capacity s) \<and> nonNegativeInput (checkedInCount s) \<and>
             nonNegativeInput (bookedCount s) \<and> nonNegativeInput (lateCancelledCount s)"
  shows "nonnegFinite (ClassFormatData.totalCapacity (groupRow k ss))"
    and "nonnegFinite (ClassFormatData.totalCheckedIn (groupRow k ss))"
    and "nonnegFinite (ClassFormatData.totalBooked (groupRow k ss))"
    and "nonnegFinite (ClassFormatData.totalLateCancelled (groupRow k ss))"
  using assms by (auto simp: groupRow_sums nonNegativeInput_def intro!: nonnegFinite_sum_list)

lemma groupRow_utilization:
  "inPercentRange
     (percent (js_sub (ClassFormatData.totalSessions (groupRow k ss))
                 (ClassFormatData.emptySessions (groupRow k ss)))
        (ClassFormatData.totalSessions (groupRow k ss)))"
  unfolding groupRow_totalSessions groupRow_emptySessions
  by (rule percent_of_part) simp


lemma cycle_rows:
  "map ClassFormatData.fillRate (processedData (Fin 1) ''all'' [session_cycle]) = [Fin 200]"
  "map ClassFormatData.totalCapacity (processedData (Fin 1) ''all'' [session_cycle]) = [Fin 10]"
  "map ClassFormatData.totalCheckedIn (processedData (Fin 1) ''all'' [session_cycle]) = [Fin 20]"
  "map ClassFormatData.utilizationRate (processedData (Fin 1) ''all'' [session_cycle]) = [Fin 100]"
  by (simp_all add: sample_defs classformat_defs)

lemma payroll_rate_rows:
  "map ProcessedPayrollData.fillRate (payrollProcessedData calendarPrevMonth None [payroll_sample]) =
     [Fin (80 / 3)]"
  "map ProcessedPayrollData.cancelRate (payrollProcessedData calendarPrevMonth None [payroll_sample]) =
     [Fin 20]"
  "map ProcessedPayrollData.utilizationRate
     (payrollProcessedData calendarPrevMonth None [payroll_sample]) = [Fin 80]"
  "map ProcessedPayrollData.fillRate (payrollProcessedData calendarPrevMonth None [payroll_busy]) =
     [Fin (400 / 3)]"
  by (simp_all add: payroll_defs payroll_busy_def)

lemma payroll_sample_nonneg:
  "nonNegativeInput (PayrollData.totalSessions payroll_sample)"
  "nonNegativeInput (PayrollData.totalCustomers payroll_sample)"
  "nonNegativeInput (totalEmptySessions payroll_sample)"
  "nonNegativeInput (PayrollData.totalSessions payroll_busy)"
  "nonNegativeInput (PayrollData.totalCustomers payroll_busy)"
  "nonNegativeInput (totalEmptySessions payroll_busy)"
  by (simp_all add: nonNegativeInput_def payroll_sample_def payroll_busy_def)



section \<open>Claim C9: unknown metric names and grouping dimensions\<close>

text \<open>The metric names and the trend views that the two \<^verbatim>\<open>switch\<close> statements know.\<close>

definition knownMetrics :: "string list" where
  "knownMetrics =
     [''totalSessions'', ''totalCustomers'', ''totalPaid'', ''classAverageExclEmpty'',
      ''classAverageInclEmpty'', ''emptySessions'', ''nonEmptySessions'', ''cycleSessions'',
      ''cycleRevenue'', ''barreSessions'', ''barreRevenue'', ''strengthSessions'',
      ''strengthRevenue'', ''conversion'', ''retention'', ''conversionRate'', ''retentionRate'',
      ''newMembers'', ''convertedMembers'', ''retainedMembers'']"

definition knownTrendViews :: "string list" where
  "knownTrendViews = [''timeslot'', ''format'', ''trainer'', ''location'', ''dayOfWeek'']"

lemma dimensionOf_unknown:
  "activeTrendView \<notin> set knownTrendViews \<Longrightarrow>
     dimensionOf activeTrendView session = (''Unknown'', ''timeslot'')"
  by (simp add: knownTrendViews_def dimensionOf_def)

text \<open>
  Claim C9, as the code has it. Both \<^verbatim>\<open>switch\<close> statements end in a \<^verbatim>\<open>default\<close>
  branch: \<^verbatim>\<open>getMetricValue\<close> returns 0 for a metric name it does not know, and the
  month-on-month table counts every session under the dimension \<^verbatim>\<open>Unknown\<close> of type
  \<^verbatim>\<open>timeslot\<close> for a trend view it does not know. No error is raised.
\<close>

theorem unknown_configuration_defaults:
  "(metric \<notin> set knownMetrics \<longrightarrow> getMetricValue row metric = Fin 0) \<and>
   (activeTrendView \<notin> set knownTrendViews \<longrightarrow>
      dimensionOf activeTrendView session = (''Unknown'', ''timeslot'') \<and>
      (\<forall>trend\<in>set (trendProcessedData monthKeyOf activeTrendView minSessions data).
         MonthlyTrendData.dimension trend = ''Unknown'' \<and>
         MonthlyTrendData.type trend = ''timeslot''))"
proof (intro conjI impI ballI)
  assume "metric \<notin> set knownMetrics"
  then show "getMetricValue row metric = Fin 0"
    by (simp add: knownMetrics_def getMetricValue_def)
next
  assume "activeTrendView \<notin> set knownTrendViews"
  then show "dimensionOf activeTrendView session = (''Unknown'', ''timeslot'')"
    by (rule dimensionOf_unknown)
next
  fix trend
  assume u: "activeTrendView \<notin> set knownTrendViews"
    and "trend \<in> set (trendProcessedData monthKeyOf activeTrendView minSessions data)"
  then obtain k v where e: "(k, v) \<in> set (trendMap monthKeyOf activeTrendView data)"
    and t: "trend = deriveTrend (sortedMonths monthKeyOf data) v"
    by (auto simp: trendProcessedData_rows)
  from trendMap_entry_type [OF e] u have "k = ''Unknown''" "MonthlyTrendData.type v = ''timeslot''"
    by (auto simp: dimensionOf_unknown)
  with trendMap_entry(1) [OF e] t
  show "MonthlyTrendData.dimension trend = ''Unknown''"
    and "MonthlyTrendData.type trend = ''timeslot''"
    by (simp_all add: deriveTrend_keeps)
qed

lemma unknown_view_sample:
  "map MonthlyTrendData.dimension
     (trendProcessedData isoMonthKey ''weekday'' (Fin 5) sample_sessions) = [''Unknown'']"
  by code_simp

theorem unknown_configuration_defaults_witness:
  "''revenuePerSession'' \<notin> set knownMetrics \<and> ''weekday'' \<notin> set knownTrendViews \<and>
   getMetricValue (processRecord payroll_sample) ''revenuePerSession'' = Fin 0 \<and>
   dimensionOf ''weekday'' session_a = (''Unknown'', ''timeslot'') \<and>
   map MonthlyTrendData.dimension
     (trendProcessedData isoMonthKey ''weekday'' (Fin 5) sample_sessions) = [''Unknown'']"
proof -
  have k: "''revenuePerSession'' \<notin> set knownMetrics" "''weekday'' \<notin> set knownTrendViews"
    by (simp_all add: knownMetrics_def knownTrendViews_def)
  from unknown_configuration_defaults
    [of "''revenuePerSession''" "processRecord payroll_sample" "''weekday''" session_a] k
  show ?thesis by (simp add: unknown_view_sample)
qed

text \<open>
  An unknown metric name reads as 0 and an unknown trend view gives the group
  \<^verbatim>\<open>Unknown\<close>: both calls return a value.
\<close>

theorem unknown_configuration_counterexample:
  "getMetricValue (processRecord payroll_sample) ''revenuePerSession'' = Fin 0 \<and>
   dimensionOf ''weekday'' session_a = (''Unknown'', ''timeslot'')"
  by (simp add: getMetricValue_def dimensionOf_def)

section \<open>Claim C6: the period-over-period delta\<close>

lemma getMonthTrend_cases:
  "getMonthTrend None previousMonth metric = None"
  "getMonthTrend currentMonth None metric = None"
  "orZero (cellMetric p metric) = Fin 0 \<Longrightarrow> getMonthTrend (Some c) (Some p) metric = None"
  "orZero (cellMetric p metric) \<noteq> Fin 0 \<Longrightarrow>
     getMonthTrend (Some c) (Some p) metric =
       (let change = js_mul (js_div (js_sub (orZero (cellMetric c metric))
                                       (orZero (cellMetric p metric)))
                               (orZero (cellMetric p metric))) (Fin 100)
        in if js_lt (js_abs change) (Fin (1 / 10)) then None else Some change)"
proof -
  show "getMonthTrend None previousMonth metric = None"
    by (simp add: getMonthTrend_def split: option.splits)
  show "getMonthTrend currentMonth None metric = None"
    by (simp add: getMonthTrend_def)
  have eq: "js_eq x (Fin 0) \<longleftrightarrow> x = Fin 0" for x
    by (cases x) simp_all
  show "orZero (cellMetric p metric) = Fin 0 \<Longrightarrow> getMonthTrend (Some c) (Some p) metric = None"
    by (simp add: getMonthTrend_def Let_def)
  show "orZero (cellMetric p metric) \<noteq> Fin 0 \<Longrightarrow>
     getMonthTrend (Some c) (Some p) metric =
       (let change = js_mul (js_div (js_sub (orZero (cellMetric c metric))
                                       (orZero (cellMetric p metric)))
                               (orZero (cellMetric p metric))) (Fin 100)
        in if js_lt (js_abs change) (Fin (1 / 10)) then None else Some change)"
    by (simp add: getMonthTrend_def Let_def eq)
qed

text \<open>
  Claim C6, as the code has it. In the multi-metric trends table each month-on-month change
  of a row is the delta of the specification between the row's two latest months, and 0
  when the row has fewer than two months: always a number. \<^verbatim>\<open>getMonthTrend\<close> of the
  payroll matrix returns \<^verbatim>\<open>null\<close> when either month cell is missing, when the previous
  value is 0 and when the change is below 0.1 in absolute value; otherwise it returns
  \<^verbatim>\<open>(current - previous) / previous * 100\<close>, which is the delta when the previous value is
  positive.
\<close>

theorem period_delta:
  "(\<forall>row\<in>set (processedTrendData monthKeyOf activeTrendView data).
      (length (monthlyBreakdown row) < 2 \<longrightarrow>
         momSessionsChange row = Fin 0 \<and> momAttendanceChange row = Fin 0 \<and>
         momRevenueChange row = Fin 0) \<and>
      (2 \<le> length (monthlyBreakdown row) \<longrightarrow>
         (\<exists>latest previous.
            map_of (monthlyBreakdown row)
              (sort (map fst (monthlyBreakdown row)) ! (length (monthlyBreakdown row) - 1))
              = Some latest \<and>
            map_of (monthlyBreakdown row)
              (sort (map fst (monthlyBreakdown row)) ! (length (monthlyBreakdown row) - 2))
              = Some previous \<and>
            momSessionsChange row =
              delta (MonthBreakdown.sessions previous) (MonthBreakdown.sessions latest) \<and>
            momAttendanceChange row =
              delta (MonthBreakdown.attendance previous) (MonthBreakdown.attendance latest) \<and>
            momRevenueChange row =
              delta (MonthBreakdown.revenue previous) (MonthBreakdown.revenue latest)))) \<and>
   getMonthTrend None previousMonth metric = None \<and>
   getMonthTrend currentMonth None metric = None \<and>
   (orZero (cellMetric p metric) = Fin 0 \<longrightarrow> getMonthTrend (Some c) (Some p) metric = None) \<and>
   (orZero (cellMetric p metric) \<noteq> Fin 0 \<longrightarrow>
      getMonthTrend (Some c) (Some p) metric =
        (let change = js_mul (js_div (js_sub (orZero (cellMetric c metric))
                                        (orZero (cellMetric p metric)))
                                (orZero (cellMetric p metric))) (Fin 100)
         in if js_lt (js_abs change) (Fin (1 / 10)) then None else Some change)) \<and>
   (js_gt (orZero (cellMetric p metric)) (Fin 0) \<longrightarrow>
      getMonthTrend (Some c) (Some p) metric =
        (let change = delta (orZero (cellMetric p metric)) (orZero (cellMetric c metric))
         in if js_lt (js_abs change) (Fin (1 / 10)) then None else Some change))"
proof -
  have rows: "\<forall>row\<in>set (processedTrendData monthKeyOf activeTrendView data).
      (length (monthlyBreakdown row) < 2 \<longrightarrow>
         momSessionsChange row = Fin 0 \<and> momAttendanceChange row = Fin 0 \<and>
         momRevenueChange row = Fin 0) \<and>
      (2 \<le> length (monthlyBreakdown row) \<longrightarrow>
         (\<exists>latest previous.
            map_of (monthlyBreakdown row)
              (sort (map fst (monthlyBreakdown row)) ! (length (monthlyBreakdown row) - 1))
              = Some latest \<and>
            map_of (monthlyBreakdown row)
              (sort (map fst (monthlyBreakdown row)) ! (length (monthlyBreakdown row) - 2))
              = Some previous \<and>
            momSessionsChange row =
              delta (MonthBreakdown.sessions previous) (MonthBreakdown.sessions latest) \<and>
            momAttendanceChange row =
              delta (MonthBreakdown.attendance previous) (MonthBreakdown.attendance latest) \<and>
            momRevenueChange row =
              delta (MonthBreakdown.revenue previous) (MonthBreakdown.revenue latest)))"
  proof (rule ballI)
    fix row assume "row \<in> set (processedTrendData monthKeyOf activeTrendView data)"
    then obtain k v where e: "(k, v) \<in> set (multiTrendMap monthKeyOf activeTrendView data)"
      and row: "row = multiDerive (length (sortedMonths monthKeyOf data)) v"
      by (auto simp: processedTrendData_rows)
    have mb: "monthlyBreakdown row = monthlyBreakdown v"
      by (simp add: row multiDerive_keeps)
    show "(length (monthlyBreakdown row) < 2 \<longrightarrow>
         momSessionsChange row = Fin 0 \<and> momAttendanceChange row = Fin 0 \<and>
         momRevenueChange row = Fin 0) \<and>
      (2 \<le> length (monthlyBreakdown row) \<longrightarrow>
         (\<exists>latest previous.
            map_of (monthlyBreakdown row)
              (sort (map fst (monthlyBreakdown row)) ! (length (monthlyBreakdown row) - 1))
              = Some latest \<and>
            map_of (monthlyBreakdown row)
              (sort (map fst (monthlyBreakdown row)) ! (length (monthlyBreakdown row) - 2))
              = Some previous \<and>
            momSessionsChange row =
              delta (MonthBreakdown.sessions previous) (MonthBreakdown.sessions latest) \<and>
            momAttendanceChange row =
              delta (MonthBreakdown.attendance previous) (MonthBreakdown.attendance latest) \<and>
            momRevenueChange row =
              delta (MonthBreakdown.revenue previous) (MonthBreakdown.revenue latest)))"
      unfolding mb
      using multi_row_short [OF e] multi_row_delta [of v]
      by (simp add: row)
  qed
  have pos: "js_gt x (Fin 0) \<Longrightarrow> x \<noteq> Fin 0" for x by auto
  have d: "js_gt (orZero (cellMetric p metric)) (Fin 0) \<longrightarrow>
      getMonthTrend (Some c) (Some p) metric =
        (let change = delta (orZero (cellMetric p metric)) (orZero (cellMetric c metric))
         in if js_lt (js_abs change) (Fin (1 / 10)) then None else Some change)"
    using getMonthTrend_cases(4) [of p metric c] by (auto simp: delta_def dest: pos)
  from rows d show ?thesis
    by (simp only: getMonthTrend_cases(1,2) simp_thms) (simp add: getMonthTrend_cases(3,4))
qed

lemma multi_sample:
  "map momAttendanceChange (processedTrendData isoMonthKey ''format'' sample_sessions) =
     [Fin (- 100), Fin 0, Fin 0]"
  "map (\<lambda>row. map fst (monthlyBreakdown row))
     (processedTrendData isoMonthKey ''format'' sample_sessions) =
     [[''2024-01'', ''2024-02'', ''2024-04''], [''2024-01''], [''2024-01'']]"
  by code_simp+

text \<open>
  Revenue 1000 in January and 1500 in February: the trend is 50. For the class format with
  sessions in January, February and April the attendance of February (25) is compared with
  that of April (0).
\<close>

theorem period_delta_witness:
  "js_gt (orZero (cellMetric cell_jan ''totalPaid'')) (Fin 0) \<and>
   getMonthTrend (Some cell_feb) (Some cell_jan) ''totalPaid'' = Some (Fin 50) \<and>
   orZero (cellMetric cell_feb ''totalCustomers'') = Fin 0 \<and>
   getMonthTrend (Some cell_jan) (Some cell_feb) ''totalCustomers'' = None \<and>
   map momAttendanceChange (processedTrendData isoMonthKey ''format'' sample_sessions) =
     [Fin (- 100), Fin 0, Fin 0]"
proof -
  have a: "orZero (cellMetric cell_jan ''totalPaid'') = Fin 1000"
    "orZero (cellMetric cell_feb ''totalPaid'') = Fin 1500"
    "orZero (cellMetric cell_feb ''totalCustomers'') = Fin 0"
    by (simp_all add: cellMetric_def cell_jan_def cell_feb_def)
  have d: "delta (Fin 1000) (Fin 1500) = Fin 50"
    by (simp add: delta_def js_sub_def)
  note t1 = period_delta [of isoMonthKey "''format''" sample_sessions None "''totalPaid''" None
      cell_jan cell_feb]
  note t2 = period_delta [of isoMonthKey "''format''" sample_sessions None "''totalCustomers''" None
      cell_feb cell_jan]
  from t1 a d have "getMonthTrend (Some cell_feb) (Some cell_jan) ''totalPaid'' = Some (Fin 50)"
    by (simp add: js_lt_def js_sub_def Let_def)
  moreover from t2 a have "getMonthTrend (Some cell_jan) (Some cell_feb) ''totalCustomers'' = None"
    by simp
  ultimately show ?thesis using a by (simp add: multi_sample)
qed

text \<open>
  With no customers in the previous month, and with no previous month at all, the trend is
  \<^verbatim>\<open>null\<close>, not the number 0.
\<close>

theorem period_delta_counterexample:
  "getMonthTrend (Some cell_jan) (Some cell_feb) ''totalCustomers'' = None \<and>
   getMonthTrend (Some cell_feb) None ''totalPaid'' = None"
  by (simp add: getMonthTrend_def cellMetric_def cell_jan_def cell_feb_def)

section \<open>Claim C8: year over year\<close>


lemma trainer_sample:
  "trainer_rows =
     [processRecord payroll_2023, processRecord payroll_ravi, processRecord payroll_sample]"
  "trainerKey (processRecord payroll_2023) = ''Asha-Kenkere House''"
  "trainerKey (processRecord payroll_sample) = ''Asha-Kenkere House''"
  "trainerKey (processRecord payroll_ravi) = ''Ravi-Kenkere House''"
  "yearOf (processRecord payroll_2023) = ''2023''"
  "yearOf (processRecord payroll_sample) = ''2024''"
  "yearOf (processRecord payroll_ravi) = ''2023''"
  "ProcessedTrainerData.totalPaid (processRecord payroll_2023) = Fin 4000"
  "ProcessedTrainerData.totalPaid (processRecord payroll_sample) = Fin 5000"
  "ProcessedTrainerData.trainerName (processRecord payroll_2023) = ''Asha''"
  "ProcessedTrainerData.location (processRecord payroll_2023) = ''Kenkere House''"
  by (simp_all add: trainer_rows_def processTrainerData_def processRecord_def trainerKey_def
        yearOf_def payroll_sample_def payroll_2023_def payroll_ravi_def Let_def)

lemma year_order: "(''2023'' :: string) \<le> ''2024''" "\<not> (''2024'' :: string) \<le> ''2023''"
  by code_simp+

lemma yoy_sample:
  "map yoyKey (yearOnYearData trainer_rows) = [''Asha-Kenkere House'']"
  "map (\<lambda>row. YearTotals.revenue (previousYear row)) (yearOnYearData trainer_rows) = [Fin 4000]"
  "map (\<lambda>row. YearTotals.revenue (currentYear row)) (yearOnYearData trainer_rows) = [Fin 5000]"
  "map trainerKey trainer_rows =
     [''Asha-Kenkere House'', ''Ravi-Kenkere House'', ''Asha-Kenkere House'']"
  by (simp_all add: trainer_sample yearOnYearData_def trainerMap_def trainerStep_def
        newTrainerYears_def addTrainerYear_def object_values_def compareYears_def Let_def
        year_order yearTotals_def addYearTotals_def yoyKey_def)


section \<open>Claim C7: which periods are compared\<close>


lemma multi_periods_sample:
  "periodsOf isoMonthKey ''format'' ''Barre 57'' sample_sessions =
     [''2024-01'', ''2024-02'', ''2024-04'']"
  "map TrendData.dimension (processedTrendData isoMonthKey ''format'' sample_sessions) =
     [''Barre 57'', ''Hosted Class'', ''PowerCycle'']"
  "map momAttendanceChange (processedTrendData isoMonthKey ''format'' sample_sessions) =
     [Fin (- 100), Fin 0, Fin 0]"
  by code_simp+

lemma payroll_gap_sample:
  "map trends (payrollProcessedData calendarPrevMonth None [payroll_jan, payroll_mar]) =
     [noTrends, noTrends]"
  "map ProcessedPayrollData.monthYear
     (payrollProcessedData calendarPrevMonth None [payroll_jan, payroll_mar]) =
     [Some ''2024-01'', Some ''2024-03'']"
  "map ProcessedPayrollData.teacherName
     (payrollProcessedData calendarPrevMonth None [payroll_jan, payroll_mar]) = [''Asha'', ''Asha'']"
  "map ProcessedPayrollData.location
     (payrollProcessedData calendarPrevMonth None [payroll_jan, payroll_mar]) =
     [''Kenkere House'', ''Kenkere House'']"
  by (simp_all add: payroll_defs)



end
